theory Spec2Isabelle
  imports Complex_Main
begin

section \<open>Data model\<close>

text \<open>
  The forecasters, the Gaussian sampler and the objective of the assisted-manipulation
  controller, embedded from \<^verbatim>\<open>controller/forecast.cpp\<close>, \<^verbatim>\<open>controller/kalman.cpp\<close>,
  \<^verbatim>\<open>mppi.hpp\<close> and \<^verbatim>\<open>frankaridgeback/objective/assisted_manipulation.cpp\<close>.
  A \<^verbatim>\<open>double\<close> is a \<^typ>\<open>real\<close>. A dynamically sized \<^verbatim>\<open>VectorXd\<close> is a list of
  reals. Every place where the C++ leaves the defined
  behaviour (a failed assertion, an index out of range, an empty optional that is
  dereferenced, vectors of different sizes that are added) is a value of \<open>error\<close>.
\<close>

datatype error =
    Assertion_Failed
  | Out_Of_Bounds
  | Size_Mismatch
  | Empty_Optional
  | Division_By_Zero
  | Float_Cast_Overflow
  | Non_Termination
  | Not_A_Number

definition and_then :: "error + 'a \<Rightarrow> ('a \<Rightarrow> error + 'b) \<Rightarrow> error + 'b" where
  "and_then r f = (case r of Inl e \<Rightarrow> Inl e | Inr x \<Rightarrow> f x)"

text \<open>A counted \<^verbatim>\<open>for\<close> loop over the given indices, stopping at the first error.\<close>

fun for_each :: "nat list \<Rightarrow> (nat \<Rightarrow> 'a \<Rightarrow> error + 'a) \<Rightarrow> 'a \<Rightarrow> error + 'a" where
  "for_each [] body s = Inr s"
| "for_each (i # rest) body s =
     (case body i s of Inl e \<Rightarrow> Inl e | Inr s' \<Rightarrow> for_each rest body s')"

text \<open>
  The machine rounds the result of every operation on \<^verbatim>\<open>double\<close>s. Where only a value
  depends on it the model computes with the exact operation. Where a rounded result decides
  a comparison or an index (the cutoff \<^verbatim>\<open>time - m_window\<close>, the quotients
  \<^verbatim>\<open>(time - m_last_update) / m_time_step\<close> and \<^verbatim>\<open>horison / time_step\<close>), the model takes
  the machine's subtraction and division as they are, as the parameter \<open>fp\<close>: nothing is
  assumed of them. \<open>exact_arithmetic\<close> is what they compute on operands whose difference
  or quotient is itself a \<^verbatim>\<open>double\<close>.
\<close>

record double_arithmetic =
  d_minus :: "real \<Rightarrow> real \<Rightarrow> real"
  d_divide :: "real \<Rightarrow> real \<Rightarrow> real"

definition exact_arithmetic :: double_arithmetic where
  "exact_arithmetic = \<lparr>d_minus = (\<lambda>a b. a - b), d_divide = (\<lambda>a b. a / b)\<rparr>"

type_synonym vec = "real list"

definition vzero :: "nat \<Rightarrow> vec" where
  "vzero n = replicate n 0"

text \<open>Eigen's \<^verbatim>\<open>a += b\<close> on dynamic vectors requires equal sizes.\<close>

definition vadd :: "vec \<Rightarrow> vec \<Rightarrow> error + vec" where
  "vadd a b = (if length a = length b then Inr (map2 (+) a b) else Inl Size_Mismatch)"

definition vscale :: "real \<Rightarrow> vec \<Rightarrow> vec" where
  "vscale c a = map (\<lambda>x. c * x) a"

definition vdiv :: "vec \<Rightarrow> real \<Rightarrow> vec" where
  "vdiv a c = map (\<lambda>x. x / c) a"

section \<open>The moving-average forecaster\<close>

text \<open>
  \<^verbatim>\<open>std::numeric_limits<double>::min()\<close> is the smallest positive normal double,
  \<open>2\<^sup>-\<^sup>1\<^sup>0\<^sup>2\<^sup>2\<close>.
\<close>

definition DBL_MIN :: real where
  "DBL_MIN = 1 / 2 ^ 1022"

record average_forecast =
  m_window :: real
  m_buffer :: "(real \<times> vec) list"
  m_average :: vec

record average_configuration =
  average_window :: real
  average_states :: nat

text \<open>The constructor: one placeholder observation, all zero, stamped \<open>DBL_MIN\<close>.\<close>

definition AverageForecast :: "real \<Rightarrow> nat \<Rightarrow> average_forecast" where
  "AverageForecast w n =
     \<lparr> m_window = w, m_buffer = [(DBL_MIN, vzero n)], m_average = vzero n \<rparr>"

definition AverageForecast_create :: "average_configuration \<Rightarrow> average_forecast option" where
  "AverageForecast_create configuration =
     (if average_window configuration < 0 then None
      else Some (AverageForecast (average_window configuration) (average_states configuration)))"

text \<open>
  \<^verbatim>\<open>std::upper_bound\<close> with the comparison \<^verbatim>\<open>time < element.first\<close>: the position
  of the first element for which the comparison holds, on a range partitioned by it (the
  buffer is ordered by time stamp).
\<close>

definition upper_bound :: "real \<Rightarrow> (real \<times> vec) list \<Rightarrow> nat" where
  "upper_bound t xs = length (takeWhile (\<lambda>element. \<not> t < fst element) xs)"

definition clear_old_measurements ::
  "double_arithmetic \<Rightarrow> real \<Rightarrow> average_forecast \<Rightarrow> error + average_forecast" where
  "clear_old_measurements fp time s =
     (let it = upper_bound (d_minus fp time (m_window s)) (m_buffer s) in
      if it = length (m_buffer s) then
        (if m_buffer s = [] then Inl Out_Of_Bounds
         else Inr (s\<lparr>m_buffer := drop (it - 1) (m_buffer s)\<rparr>))
      else Inr (s\<lparr>m_buffer := drop it (m_buffer s)\<rparr>))"

text \<open>The loop of \<^verbatim>\<open>update_average\<close>, from index 1 on.\<close>

fun accumulate :: "vec \<Rightarrow> (real \<times> vec) list \<Rightarrow> error + vec" where
  "accumulate tot [] = Inr tot"
| "accumulate tot (element # rest) =
     (case vadd tot (snd element) of
        Inl e \<Rightarrow> Inl e
      | Inr tot' \<Rightarrow> accumulate tot' rest)"

definition update_average :: "average_forecast \<Rightarrow> error + average_forecast" where
  "update_average s =
     (case m_buffer s of
        [] \<Rightarrow> Inl Out_Of_Bounds
      | first # rest \<Rightarrow>
          (case accumulate (snd first) rest of
             Inl e \<Rightarrow> Inl e
           | Inr tot \<Rightarrow> Inr (s\<lparr>m_average := vdiv tot (real (length (m_buffer s)))\<rparr>)))"

text \<open>\<^verbatim>\<open>AverageForecast::update(double time)\<close>.\<close>

definition AverageForecast_update_time ::
  "double_arithmetic \<Rightarrow> real \<Rightarrow> average_forecast \<Rightarrow> error + average_forecast" where
  "AverageForecast_update_time fp time s =
     (case clear_old_measurements fp time s of
        Inl e \<Rightarrow> Inl e
      | Inr s' \<Rightarrow> update_average s')"

text \<open>\<^verbatim>\<open>AverageForecast::update(VectorXd measurement, double time)\<close>.\<close>

definition AverageForecast_update ::
  "double_arithmetic \<Rightarrow> vec \<Rightarrow> real \<Rightarrow> average_forecast \<Rightarrow> error + average_forecast" where
  "AverageForecast_update fp measurement time s =
     (if m_buffer s = [] then Inl Out_Of_Bounds
      else if time < fst (last (m_buffer s)) then Inr s
      else
        (case clear_old_measurements fp time
                (s\<lparr>m_buffer := m_buffer s @ [(time, measurement)]\<rparr>) of
           Inl e \<Rightarrow> Inl e
         | Inr s' \<Rightarrow> update_average s'))"

definition AverageForecast_forecast :: "average_forecast \<Rightarrow> real \<Rightarrow> vec" where
  "AverageForecast_forecast s time = m_average s"

subsection \<open>What the forecaster is meant to keep\<close>

text \<open>
  The observations of \<open>xs\<close> stamped later than \<open>cutoff\<close>, and always the most recent one.
\<close>

definition retained :: "real \<Rightarrow> (real \<times> vec) list \<Rightarrow> (real \<times> vec) list" where
  "retained cutoff xs = filter (\<lambda>element. cutoff < fst element) (butlast xs) @ [last xs]"

text \<open>The stored average is the arithmetic mean of the buffered vectors, coordinate by coordinate.\<close>

definition is_mean :: "nat \<Rightarrow> average_forecast \<Rightarrow> bool" where
  "is_mean n s \<longleftrightarrow>
     length (m_average s) = n \<and>
     (\<forall>i < n. m_average s ! i =
        (\<Sum>element \<leftarrow> m_buffer s. snd element ! i) / real (length (m_buffer s)))"

text \<open>
  The states the forecaster can be in: the buffer is never empty, is ordered by time stamp
  and holds vectors of one size \<open>n\<close>, and the stored average is the mean of the buffer.
\<close>

definition average_wf :: "nat \<Rightarrow> average_forecast \<Rightarrow> bool" where
  "average_wf n s \<longleftrightarrow>
     m_buffer s \<noteq> [] \<and>
     sorted (map fst (m_buffer s)) \<and>
     (\<forall>element \<in> set (m_buffer s). length (snd element) = n) \<and>
     is_mean n s"


section \<open>Matrices\<close>

text \<open>
  A dynamically sized \<^verbatim>\<open>MatrixXd\<close>: its shape and its coefficients. Eigen asserts the
  index ranges and the shapes of the operands; the model returns an error there.
\<close>

record mat =
  rows :: nat
  cols :: nat
  coeff :: "nat \<times> nat \<Rightarrow> real"

definition mat_zero :: "nat \<Rightarrow> nat \<Rightarrow> mat" where
  "mat_zero r c = \<lparr>rows = r, cols = c, coeff = (\<lambda>_. 0)\<rparr>"

definition mat_identity :: "nat \<Rightarrow> nat \<Rightarrow> mat" where
  "mat_identity r c = \<lparr>rows = r, cols = c, coeff = (\<lambda>(i, j). if i = j then 1 else 0)\<rparr>"

definition mat_scale :: "mat \<Rightarrow> real \<Rightarrow> mat" where
  "mat_scale M x = M\<lparr>coeff := (\<lambda>p. coeff M p * x)\<rparr>"

text \<open>\<^verbatim>\<open>matrix(row, col) = value\<close>.\<close>

definition assign :: "mat \<Rightarrow> nat \<Rightarrow> nat \<Rightarrow> real \<Rightarrow> error + mat" where
  "assign M row col v =
     (if row < rows M \<and> col < cols M then Inr (M\<lparr>coeff := (coeff M)((row, col) := v)\<rparr>)
      else Inl Out_Of_Bounds)"

definition mat_transpose :: "mat \<Rightarrow> mat" where
  "mat_transpose M = \<lparr>rows = cols M, cols = rows M, coeff = (\<lambda>(i, j). coeff M (j, i))\<rparr>"

definition mat_mul :: "mat \<Rightarrow> mat \<Rightarrow> error + mat" where
  "mat_mul A B =
     (if cols A = rows B then
        Inr \<lparr>rows = rows A, cols = cols B,
             coeff = (\<lambda>(i, j). \<Sum>k \<leftarrow> [0..<cols A]. coeff A (i, k) * coeff B (k, j))\<rparr>
      else Inl Size_Mismatch)"

definition mat_add :: "mat \<Rightarrow> mat \<Rightarrow> error + mat" where
  "mat_add A B =
     (if rows A = rows B \<and> cols A = cols B then
        Inr \<lparr>rows = rows A, cols = cols A, coeff = (\<lambda>p. coeff A p + coeff B p)\<rparr>
      else Inl Size_Mismatch)"

definition mat_vec :: "mat \<Rightarrow> vec \<Rightarrow> error + vec" where
  "mat_vec A x =
     (if cols A = length x then
        Inr (map (\<lambda>i. \<Sum>k \<leftarrow> [0..<cols A]. coeff A (i, k) * x ! k) [0..<rows A])
      else Inl Size_Mismatch)"

text \<open>\<^verbatim>\<open>matrix.col(j)\<close>, with Eigen's signed index.\<close>

definition col :: "mat \<Rightarrow> int \<Rightarrow> error + vec" where
  "col M j =
     (if 0 \<le> j \<and> j < int (cols M) then Inr (map (\<lambda>i. coeff M (i, nat j)) [0..<rows M])
      else Inl Out_Of_Bounds)"

text \<open>\<^verbatim>\<open>matrix.rightCols(1)\<close>: the last column.\<close>

definition rightCols1 :: "mat \<Rightarrow> error + vec" where
  "rightCols1 M = (if 1 \<le> cols M then col M (int (cols M) - 1) else Inl Out_Of_Bounds)"

text \<open>A \<^verbatim>\<open>VectorXd\<close> seen as a matrix: one column.\<close>

definition as_matrix :: "vec \<Rightarrow> mat" where
  "as_matrix v = \<lparr>rows = length v, cols = 1, coeff = (\<lambda>(i, j). v ! i)\<rparr>"

section \<open>The Kalman filter\<close>

record kalman_filter_configuration =
  observed_states :: nat
  states :: nat
  state_transition_matrix :: mat
  transition_covariance :: mat
  observation_matrix :: mat
  observation_covariance :: mat
  initial_state :: vec
  initial_covariance :: mat

record kalman_filter =
  m_observed_state_size :: nat
  m_estimated_state_size :: nat
  m_state_transition_matrix :: mat
  m_transition_covariance :: mat
  m_observation_matrix :: mat
  m_observation_covariance :: mat
  m_identity :: mat
  m_covariance :: mat
  m_state :: vec
  m_next_state :: vec

text \<open>The lambda \<^verbatim>\<open>check_dimensions\<close> of \<^verbatim>\<open>KalmanFilter::create\<close>.\<close>

definition check_dimensions :: "mat \<Rightarrow> nat \<Rightarrow> nat \<Rightarrow> bool" where
  "check_dimensions matrix r c \<longleftrightarrow> rows matrix = r \<and> cols matrix = c"

text \<open>The constructor; its last initialiser multiplies the transition matrix with the initial state.\<close>

definition KalmanFilter :: "kalman_filter_configuration \<Rightarrow> error + kalman_filter" where
  "KalmanFilter config =
     and_then (mat_vec (state_transition_matrix config) (initial_state config)) (\<lambda>next_state.
       Inr \<lparr> m_observed_state_size = observed_states config,
             m_estimated_state_size = states config,
             m_state_transition_matrix = state_transition_matrix config,
             m_transition_covariance = transition_covariance config,
             m_observation_matrix = observation_matrix config,
             m_observation_covariance = observation_covariance config,
             m_identity = mat_identity (states config) (states config),
             m_covariance = initial_covariance config,
             m_state = initial_state config,
             m_next_state = next_state \<rparr>)"

text \<open>
  \<^verbatim>\<open>KalmanFilter::create\<close>. \<open>None\<close> is the null pointer. The filter that the function
  builds and adjusts first is dropped; a second, fresh one is returned.
\<close>

definition KalmanFilter_create :: "kalman_filter_configuration \<Rightarrow> error + kalman_filter option" where
  "KalmanFilter_create configuration =
     (let valid = check_dimensions (state_transition_matrix configuration)
                    (states configuration) (states configuration);
          valid = (valid \<and> check_dimensions (transition_covariance configuration)
                    (states configuration) (states configuration));
          valid = (valid \<and> check_dimensions (observation_matrix configuration)
                    (observed_states configuration) (states configuration));
          valid = (valid \<and> check_dimensions (observation_covariance configuration)
                    (observed_states configuration) (observed_states configuration));
          valid = (valid \<and> check_dimensions (as_matrix (initial_state configuration))
                    (states configuration) 1);
          valid = (valid \<and> check_dimensions (initial_covariance configuration)
                    (states configuration) (states configuration))
      in if \<not> valid then Inr None
         else
           and_then (KalmanFilter configuration) (\<lambda>filter.
           and_then (mat_vec (state_transition_matrix configuration)
                       (m_next_state (filter\<lparr>m_state := initial_state configuration\<rparr>))) (\<lambda>_.
           and_then (KalmanFilter configuration) (\<lambda>result. Inr (Some result)))))"

text \<open>\<^verbatim>\<open>KalmanFilter::predict(bool update_covariance)\<close>.\<close>

definition KalmanFilter_predict :: "bool \<Rightarrow> kalman_filter \<Rightarrow> error + kalman_filter" where
  "KalmanFilter_predict update_covariance f =
     (let f1 = f\<lparr>m_state := m_next_state f\<rparr> in
      and_then (mat_vec (m_state_transition_matrix f1) (m_state f1)) (\<lambda>next_state.
        let f2 = f1\<lparr>m_next_state := next_state\<rparr> in
        if update_covariance then
          and_then (mat_mul (m_state_transition_matrix f2) (m_covariance f2)) (\<lambda>fp.
          and_then (mat_mul fp (mat_transpose (m_state_transition_matrix f2))) (\<lambda>fpf.
          and_then (mat_add fpf (m_transition_covariance f2)) (\<lambda>covariance.
            Inr (f2\<lparr>m_covariance := covariance\<rparr>))))
        else Inr f2))"

section \<open>The Kalman forecaster\<close>

text \<open>\<^verbatim>\<open>unsigned int\<close> is 32 bits wide: arithmetic on it wraps modulo \<open>2\<^sup>3\<^sup>2\<close>.\<close>

definition UINT_WRAP :: nat where
  "UINT_WRAP = 2 ^ 32"

function factorial :: "nat \<Rightarrow> nat" where
  "factorial n = (if n \<le> 1 then 1 else (n * factorial (n - 1)) mod UINT_WRAP)"
  by pat_completeness auto
termination
  by (relation "measure (\<lambda>n. n)") auto

declare factorial.simps [simp del]

text \<open>
  \<^verbatim>\<open>create_euler_state_transition_matrix\<close>. The quotient \<^verbatim>\<open>1 / factorial(i)\<close> is a
  division of unsigned integers; a factorial that has wrapped to zero makes it undefined.
  With \<open>order = 2\<^sup>3\<^sup>2 - 1\<close> the condition \<^verbatim>\<open>derivative <= order\<close> of the outer loop
  always holds: the matrix then has no rows, so the first assignment is out of range when
  there is an observed state, and the loop does not end when there is none.
\<close>

definition create_euler_state_transition_matrix :: "real \<Rightarrow> nat \<Rightarrow> nat \<Rightarrow> error + mat" where
  "create_euler_state_transition_matrix time_step observed order =
     (let n = (observed * ((order + 1) mod UINT_WRAP)) mod UINT_WRAP;
          matrix = mat_zero n n
      in if order + 1 = UINT_WRAP \<and> observed = 0 then Inl Non_Termination
         else
           for_each [0..<order + 1] (\<lambda>derivative.
             for_each [0..<observed] (\<lambda>state.
               let row = (derivative * order + state) mod UINT_WRAP in
               for_each [0..<order - derivative + 1] (\<lambda>i matrix.
                 let column = (derivative * observed + i * observed + state) mod UINT_WRAP in
                 if factorial i = 0 then Inl Division_By_Zero
                 else assign matrix row column (real (1 div factorial i) * time_step ^ i))))
             matrix)"

definition create_euler_state_transition_covariance_matrix :: "real \<Rightarrow> nat \<Rightarrow> nat \<Rightarrow> mat" where
  "create_euler_state_transition_covariance_matrix time_step observed order =
     (let n = (observed * ((order + 1) mod UINT_WRAP)) mod UINT_WRAP
      in mat_scale (mat_identity n n) (1 / 10 ^ 8))"

record kalman_configuration =
  kalman_observed_states :: nat
  kalman_order :: nat
  kalman_time_step :: real
  kalman_horison :: real
  kalman_initial_state :: vec

record kalman_forecast =
  m_observed_states :: nat
  m_estaimted_states :: nat
  m_horison :: real
  m_time_step :: real
  m_steps :: nat
  m_last_update :: real
  m_measurement :: vec
  m_filter :: kalman_filter
  m_predictor :: kalman_filter
  m_prediction :: mat

text \<open>
  The constructor. It allocates the prediction buffer without initialising it:
  \<open>uninitialised\<close> stands for whatever the memory holds.
\<close>

definition KalmanForecast ::
  "(nat \<times> nat \<Rightarrow> real) \<Rightarrow> real \<Rightarrow> real \<Rightarrow> nat \<Rightarrow> real \<Rightarrow> kalman_filter \<Rightarrow> kalman_filter \<Rightarrow> vec
     \<Rightarrow> kalman_forecast" where
  "KalmanForecast uninitialised horison time_step steps last_update filter' predictor initial =
     \<lparr> m_observed_states = m_observed_state_size filter',
       m_estaimted_states = m_estimated_state_size filter',
       m_horison = horison,
       m_time_step = time_step,
       m_steps = steps,
       m_last_update = last_update,
       m_measurement = vzero (m_estimated_state_size filter'),
       m_filter = filter',
       m_predictor = predictor,
       m_prediction = \<lparr>rows = m_observed_state_size filter', cols = (steps + 1) mod UINT_WRAP,
                        coeff = uninitialised\<rparr> \<rparr>"

text \<open>
  \<^verbatim>\<open>KalmanForecast::create\<close>. The number of steps is a \<^verbatim>\<open>double\<close> converted to
  \<^verbatim>\<open>unsigned int\<close>, which is defined only for values the target type can hold.
\<close>

definition KalmanForecast_create ::
  "double_arithmetic \<Rightarrow> (nat \<times> nat \<Rightarrow> real) \<Rightarrow> kalman_configuration
     \<Rightarrow> error + kalman_forecast option" where
  "KalmanForecast_create fp uninitialised configuration =
     (let observed = kalman_observed_states configuration;
          order = kalman_order configuration;
          n = (observed * ((order + 1) mod UINT_WRAP)) mod UINT_WRAP
      in if \<not> observed \<le> n then Inl Out_Of_Bounds
         else if length (kalman_initial_state configuration) \<noteq> observed then Inl Size_Mismatch
         else
           and_then (create_euler_state_transition_matrix
                       (kalman_time_step configuration) observed order) (\<lambda>transition.
             let kalman_configuration = \<lparr>
                   observed_states = observed,
                   states = n,
                   state_transition_matrix = transition,
                   transition_covariance = create_euler_state_transition_covariance_matrix
                       (kalman_time_step configuration) observed order,
                   observation_matrix = (mat_zero observed n)
                       \<lparr>coeff := (\<lambda>(i, j). if i < observed \<and> j < observed
                                           then (if i = j then 1 else 0) else 0)\<rparr>,
                   observation_covariance = mat_scale (mat_identity observed observed) (1 / 10 ^ 8),
                   initial_state = kalman_initial_state configuration @ vzero (n - observed),
                   initial_covariance = mat_scale (mat_identity n n) (1 / 10 ^ 8) \<rparr>
             in
             and_then (KalmanFilter_create kalman_configuration) (\<lambda>filter.
             and_then (KalmanFilter_create kalman_configuration) (\<lambda>predictor.
               case (filter, predictor) of
                 (Some filter', Some predictor') \<Rightarrow>
                   (let quotient = \<lceil>d_divide fp (kalman_horison configuration)
                                      (kalman_time_step configuration)\<rceil>
                    in if kalman_time_step configuration = 0 \<or> quotient < 0
                          \<or> int UINT_WRAP \<le> quotient
                       then Inl Float_Cast_Overflow
                       else Inr (Some (KalmanForecast uninitialised
                              (kalman_horison configuration) (kalman_time_step configuration)
                              (nat quotient) 0 filter' predictor'
                              (kalman_initial_state configuration))))
               | _ \<Rightarrow> Inr None))))"

text \<open>
  \<^verbatim>\<open>KalmanForecast::update(double time)\<close>. The call \<^verbatim>\<open>m_filter->predict()\<close> takes the
  default argument of the declaration in \<^verbatim>\<open>controller/kalman.hpp\<close>, here the parameter
  \<open>update_covariance\<close>.
\<close>

definition KalmanForecast_update_time :: "bool \<Rightarrow> real \<Rightarrow> kalman_forecast \<Rightarrow> error + kalman_forecast" where
  "KalmanForecast_update_time update_covariance time s =
     and_then (KalmanFilter_predict update_covariance (m_filter s)) (\<lambda>filter. Inr (s\<lparr>m_filter := filter\<rparr>))"

text \<open>
  \<^verbatim>\<open>(int)t\<close>: the conversion of a \<^verbatim>\<open>double\<close> to a 32-bit \<^verbatim>\<open>int\<close> drops the
  fraction (rounds towards zero) and is undefined outside the range of \<^verbatim>\<open>int\<close>.
\<close>

definition to_int :: "real \<Rightarrow> error + int" where
  "to_int t =
     (let z = (if 0 \<le> t then \<lfloor>t\<rfloor> else \<lceil>t\<rceil>)
      in if - (2 ^ 31) \<le> z \<and> z < 2 ^ 31 then Inr z else Inl Float_Cast_Overflow)"

definition interpolate :: "real \<Rightarrow> vec \<Rightarrow> vec \<Rightarrow> vec" where
  "interpolate t a b = map2 (+) (vscale (1 - t) a) (vscale t b)"

text \<open>
  \<^verbatim>\<open>KalmanForecast::forecast(double time)\<close>. \<open>ndebug\<close> tells whether the program was
  compiled with \<^verbatim>\<open>NDEBUG\<close>, which removes the assertion. A time step of zero makes the
  quotient infinite or NaN, which no \<^verbatim>\<open>int\<close> can hold.
\<close>

definition KalmanForecast_forecast ::
  "double_arithmetic \<Rightarrow> bool \<Rightarrow> kalman_forecast \<Rightarrow> real \<Rightarrow> error + vec" where
  "KalmanForecast_forecast fp ndebug s time =
     (if \<not> ndebug \<and> \<not> m_last_update s \<le> time then Inl Assertion_Failed
      else if m_horison s < time then rightCols1 (m_prediction s)
      else if m_time_step s = 0 then Inl Float_Cast_Overflow
      else
        (let t = d_divide fp (d_minus fp time (m_last_update s)) (m_time_step s) in
         and_then (to_int t) (\<lambda>lower.
           if lower + 1 = 2 ^ 31 then Inl Float_Cast_Overflow
           else
             (let upper = lower + 1;
                  t = t - real_of_int lower
              in and_then (col (m_prediction s) lower) (\<lambda>a.
                 and_then (col (m_prediction s) upper) (\<lambda>b.
                   Inr (interpolate t a b)))))))"

section \<open>Choosing a forecaster\<close>

datatype forecast_type = LOCF | AVERAGE | KALMAN | UNKNOWN

record ('c) forecast_configuration =
  type :: forecast_type
  locf :: "'c option"
  average :: "average_configuration option"
  kalman :: "kalman_configuration option"

datatype 'l forecast =
    LOCF_Forecast 'l
  | Average_Forecast average_forecast
  | Kalman_Forecast kalman_forecast

text \<open>\<^verbatim>\<open>*optional\<close> on an empty \<^verbatim>\<open>std::optional\<close> is undefined.\<close>

definition deref :: "'a option \<Rightarrow> error + 'a" where
  "deref x = (case x of None \<Rightarrow> Inl Empty_Optional | Some v \<Rightarrow> Inr v)"

text \<open>
  \<^verbatim>\<open>Forecast::create\<close>. \<open>locf_create\<close> is \<^verbatim>\<open>LOCFForecast::create\<close>, whose definition is
  in another file; \<open>Inr None\<close> is the null pointer.
\<close>

definition Forecast_create ::
  "double_arithmetic \<Rightarrow> ('c \<Rightarrow> 'l option) \<Rightarrow> (nat \<times> nat \<Rightarrow> real) \<Rightarrow> 'c forecast_configuration
     \<Rightarrow> error + 'l forecast option" where
  "Forecast_create fp locf_create uninitialised configuration =
     (if type configuration = LOCF then
        (if locf configuration = None then Inr None
         else and_then (deref (locf configuration)) (\<lambda>c.
                Inr (map_option LOCF_Forecast (locf_create c))))
      else if type configuration = AVERAGE then
        (if locf configuration = None then Inr None
         else and_then (deref (average configuration)) (\<lambda>c.
                Inr (map_option Average_Forecast (AverageForecast_create c))))
      else if type configuration = KALMAN then
        (if kalman configuration = None then Inr None
         else and_then (deref (kalman configuration)) (\<lambda>c.
                and_then (KalmanForecast_create fp uninitialised c) (\<lambda>r.
                  Inr (map_option Kalman_Forecast r))))
      else Inr None)"

subsection \<open>Shapes\<close>

text \<open>
  What a correctly shaped configuration of the filter is: the state-transition matrix, the
  transition covariance and the initial covariance are \<open>states \<times> states\<close>, the observation
  matrix is \<open>observed \<times> states\<close>, the observation covariance is \<open>observed \<times> observed\<close>, and
  the initial state is a column of \<open>states\<close> entries.
\<close>

definition shapes_correct :: "kalman_filter_configuration \<Rightarrow> bool" where
  "shapes_correct c \<longleftrightarrow>
     rows (state_transition_matrix c) = states c \<and> cols (state_transition_matrix c) = states c \<and>
     rows (transition_covariance c) = states c \<and> cols (transition_covariance c) = states c \<and>
     rows (initial_covariance c) = states c \<and> cols (initial_covariance c) = states c \<and>
     rows (observation_matrix c) = observed_states c \<and> cols (observation_matrix c) = states c \<and>
     rows (observation_covariance c) = observed_states c \<and>
     cols (observation_covariance c) = observed_states c \<and>
     length (initial_state c) = states c"

text \<open>A filter whose matrices and vectors fit together for \<open>n\<close> estimated states.\<close>

definition filter_shapes :: "nat \<Rightarrow> kalman_filter \<Rightarrow> bool" where
  "filter_shapes n f \<longleftrightarrow>
     rows (m_state_transition_matrix f) = n \<and> cols (m_state_transition_matrix f) = n \<and>
     rows (m_transition_covariance f) = n \<and> cols (m_transition_covariance f) = n \<and>
     rows (m_covariance f) = n \<and> cols (m_covariance f) = n \<and>
     length (m_next_state f) = n"

subsection \<open>What the Kalman forecaster is meant to compute\<close>

text \<open>
  The Taylor-integration matrix for \<open>d\<close> observed coordinates and order \<open>n\<close>: the row of
  derivative \<open>k\<close> of coordinate \<open>j\<close> is \<open>k * d + j\<close>, and it holds \<open>\<Delta>\<^sup>i / i!\<close> in the column
  of derivative \<open>k + i\<close> of the same coordinate, for \<open>i\<close> from \<open>0\<close> to \<open>n - k\<close>, and zero
  everywhere else.
\<close>

definition taylor_coeff :: "real \<Rightarrow> nat \<Rightarrow> nat \<Rightarrow> nat \<times> nat \<Rightarrow> real" where
  "taylor_coeff delta d n = (\<lambda>(r, c).
     if r < d * (n + 1) \<and> c < d * (n + 1) \<and> r mod d = c mod d \<and> r div d \<le> c div d
     then delta ^ (c div d - r div d) / fact (c div d - r div d)
     else 0)"

text \<open>
  The steps into the current horizon, as the machine computes them:
  \<^verbatim>\<open>(time - m_last_update) / m_time_step\<close>.
\<close>

definition steps_into_horison :: "double_arithmetic \<Rightarrow> kalman_forecast \<Rightarrow> real \<Rightarrow> real" where
  "steps_into_horison fp s time =
     d_divide fp (d_minus fp time (m_last_update s)) (m_time_step s)"

text \<open>Column \<open>j\<close> of a matrix.\<close>

definition column :: "mat \<Rightarrow> nat \<Rightarrow> vec" where
  "column M j = map (\<lambda>i. coeff M (i, j)) [0..<rows M]"

text \<open>
  The forecast with clamping: the query time is brought into
  \<open>[last_update, last_update + horizon]\<close>, and the result is the linear interpolation, by the
  fractional part of \<open>(t - last_update) / \<Delta>\<close>, between the two columns of the prediction
  buffer around it; at the end of the horizon it is the last column.
\<close>

definition forecast_clamped :: "kalman_forecast \<Rightarrow> real \<Rightarrow> vec" where
  "forecast_clamped s time =
     (let clamped = max (m_last_update s) (min (m_last_update s + m_horison s) time);
          t = (clamped - m_last_update s) / m_time_step s;
          lower = nat \<lfloor>t\<rfloor>
      in if m_steps s \<le> lower then column (m_prediction s) (m_steps s)
         else interpolate (frac t) (column (m_prediction s) lower)
                (column (m_prediction s) (lower + 1)))"

section \<open>The Gaussian sampler\<close>

text \<open>
  \<^verbatim>\<open>mppi::Gaussian\<close>. Eigen's \<^verbatim>\<open>SelfAdjointEigenSolver\<close> is the parameter \<open>solver\<close>: from
  a matrix it gives the matrix of eigenvectors and the vector of eigenvalues. It asserts
  that the matrix is square. The square root of a negative eigenvalue is NaN.
\<close>

record gaussian =
  m_mean :: vec
  m_transform :: mat

definition asDiagonal :: "vec \<Rightarrow> mat" where
  "asDiagonal v = \<lparr>rows = length v, cols = length v,
                   coeff = (\<lambda>(i, j). if i = j then v ! i else 0)\<rparr>"

definition cwiseSqrt :: "vec \<Rightarrow> error + vec" where
  "cwiseSqrt v = (if \<exists>x \<in> set v. x < 0 then Inl Not_A_Number else Inr (map sqrt v))"

definition set_covariance :: "(mat \<Rightarrow> mat \<times> vec) \<Rightarrow> mat \<Rightarrow> gaussian \<Rightarrow> error + gaussian" where
  "set_covariance solver covariance g =
     (if rows covariance \<noteq> cols covariance then Inl Assertion_Failed
      else
        (case solver covariance of (eigenvectors, eigenvalues) \<Rightarrow>
           and_then (cwiseSqrt eigenvalues) (\<lambda>roots.
           and_then (mat_mul eigenvectors (asDiagonal roots)) (\<lambda>transform.
             Inr (g\<lparr>m_transform := transform\<rparr>)))))"

text \<open>The two constructors: with a mean, and with the zero mean.\<close>

definition Gaussian :: "(mat \<Rightarrow> mat \<times> vec) \<Rightarrow> vec \<Rightarrow> mat \<Rightarrow> error + gaussian" where
  "Gaussian solver mean covariance =
     set_covariance solver covariance \<lparr>m_mean = mean, m_transform = mat_zero 0 0\<rparr>"

definition Gaussian_zero_mean :: "(mat \<Rightarrow> mat \<times> vec) \<Rightarrow> mat \<Rightarrow> error + gaussian" where
  "Gaussian_zero_mean solver covariance = Gaussian solver (vzero (rows covariance)) covariance"

text \<open>
  \<^verbatim>\<open>operator()\<close>: one draw. \<open>normal i\<close> is the \<open>i\<close>-th value that the shared generator
  gives to this call through the standard normal distribution.
\<close>

definition sample :: "gaussian \<Rightarrow> (nat \<Rightarrow> real) \<Rightarrow> error + vec" where
  "sample g normal =
     (let z = map normal [0..<length (m_mean g)]
      in and_then (mat_vec (m_transform g) z) (\<lambda>x. vadd (m_mean g) x))"

text \<open>
  What the solver is relied on for: \<open>V\<close> and the eigenvalues \<open>\<lambda>\<close>, none negative, with
  \<open>\<Sigma> = V \<Lambda> V\<^sup>T\<close>.
\<close>

definition decomposes :: "mat \<Rightarrow> mat \<Rightarrow> vec \<Rightarrow> bool" where
  "decomposes covariance V ev \<longleftrightarrow>
     rows V = rows covariance \<and> cols V = rows covariance \<and> length ev = rows covariance \<and>
     (\<forall>k < rows covariance. 0 \<le> ev ! k) \<and>
     (\<forall>i < rows covariance. \<forall>j < rows covariance.
        coeff covariance (i, j) =
          (\<Sum>k \<leftarrow> [0..<rows covariance]. coeff V (i, k) * ev ! k * coeff V (j, k)))"

subsection \<open>Two small covariances\<close>

text \<open>The covariance with variance 1 in the first coordinate only, and its decomposition.\<close>

definition first_axis :: mat where
  "first_axis = \<lparr>rows = 2, cols = 2, coeff = (\<lambda>(i, j). if i = 0 \<and> j = 0 then 1 else 0)\<rparr>"

definition first_axis_solver :: "mat \<Rightarrow> mat \<times> vec" where
  "first_axis_solver covariance = (mat_identity 2 2, [1, 0])"

definition zero_solver :: "mat \<Rightarrow> mat \<times> vec" where
  "zero_solver covariance = (mat_identity 2 2, [0, 0])"

section \<open>The objective of assisted manipulation\<close>

text \<open>
  \<^verbatim>\<open>QuadraticCost\<close> is declared in \<^verbatim>\<open>controller/cost.hpp\<close>; the objective reads the three
  members below. \<open>JOINTS\<close> is \<^verbatim>\<open>FrankaRidgeback::DoF::JOINTS\<close>, the number of entries of the
  joint limits in the default configuration. Arrays and vectors of that fixed size are
  functions of the index.
\<close>

record QuadraticCost =
  limit :: real
  constant_cost :: real
  quadratic_cost :: real

definition JOINTS :: nat where
  "JOINTS = 12"

record assisted_configuration =
  enable_joint_limit :: bool
  enable_reach_limit :: bool
  enable_maximise_manipulability :: bool
  enable_minimise_power :: bool
  enable_variable_damping :: bool
  lower_joint_limit :: "nat \<Rightarrow> QuadraticCost"
  upper_joint_limit :: "nat \<Rightarrow> QuadraticCost"
  maximum_reach :: QuadraticCost
  minimum_reach :: QuadraticCost
  minimum_manipulability :: QuadraticCost
  maximum_power :: QuadraticCost
  variable_damping_maximum :: real
  variable_damping_dropoff :: real

datatype frame =
    WORLD_JOINT | X_BASE_JOINT | Y_BASE_JOINT | PIVOT_JOINT | PANDA_JOINT1
  | OMNI_BASE_FLANGE | BASE_LINK_JOINT | MID_MOUNT_JOINT | RIGHT_SIDE_COVER_LINK_JOINT
  | LEFT_SIDE_COVER_LINK_JOINT | FRONT_COVER_LINK_JOINT | REAR_COVER_LINK_JOINT
  | FRONT_LIGHTS_LINK_JOINT | REAR_LIGHTS_LINK_JOINT | TOP_LINK_JOINT | AXLE_JOINT
  | IMU_JOINT | RIDGEBACK_SENSOR_MOUNT_JOINT | REFERENCE_LINK_JOINT | ARM_MOUNT_JOINT
  | PANDA_JOINT_FRANKA_MOUNT_LINK | PANDA_JOINT2 | PANDA_JOINT3 | PANDA_JOINT4
  | PANDA_JOINT5 | PANDA_JOINT6 | PANDA_JOINT7 | PANDA_FINGER_JOINT1
  | PANDA_FINGER_JOINT2 | PANDA_JOINT8 | PANDA_HAND_JOINT | PANDA_GRASP_JOINT

text \<open>
  What the objective reads from the dynamics: the power, the Jacobian of the end effector
  (6 rows, \<open>JOINTS\<close> columns) and the positions of the frames.
\<close>

record dynamics =
  get_power :: real
  jacobian :: "nat \<times> nat \<Rightarrow> real"
  get_frame_position :: "frame \<Rightarrow> real \<times> real \<times> real"

definition get_frame_offset :: "dynamics \<Rightarrow> frame \<Rightarrow> frame \<Rightarrow> real \<times> real \<times> real" where
  "get_frame_offset d from to =
     (case (get_frame_position d to, get_frame_position d from) of
        ((x, y, z), (x', y', z')) \<Rightarrow> (x - x', y - y', z - z'))"

definition norm3 :: "real \<times> real \<times> real \<Rightarrow> real" where
  "norm3 = (\<lambda>(x, y, z). sqrt (x * x + y * y + z * z))"

record franka_state =
  position :: "nat \<Rightarrow> real"

record assisted_manipulation =
  m_configuration :: assisted_configuration
  m_space_jacobian :: "nat \<times> nat \<Rightarrow> real"
  m_cost :: real
  m_power_cost :: real
  m_manipulability_cost :: real
  m_joint_cost :: real
  m_reach_cost :: real
  m_variable_damping_cost :: real

text \<open>
  The constructor initialises the configuration and five of the costs; the spatial Jacobian
  and the variable-damping cost keep what the memory holds.
\<close>

definition AssistedManipulation ::
  "(nat \<times> nat \<Rightarrow> real) \<Rightarrow> real \<Rightarrow> assisted_configuration \<Rightarrow> assisted_manipulation" where
  "AssistedManipulation uninitialised_jacobian uninitialised_cost configuration =
     \<lparr> m_configuration = configuration,
       m_space_jacobian = uninitialised_jacobian,
       m_cost = 0,
       m_power_cost = 0,
       m_manipulability_cost = 0,
       m_joint_cost = 0,
       m_reach_cost = 0,
       m_variable_damping_cost = uninitialised_cost \<rparr>"

definition power_cost :: "assisted_manipulation \<Rightarrow> dynamics \<Rightarrow> real" where
  "power_cost obj d =
     (let maximum = maximum_power (m_configuration obj);
          power = get_power d
      in if power < limit maximum then 0
         else constant_cost maximum + max 0 (quadratic_cost maximum * (power - limit maximum)))"

text \<open>
  \<^verbatim>\<open>manipulability_cost\<close> stores \<open>J J\<^sup>T\<close> and returns the cost; \<open>determinant\<close> is Eigen's.
\<close>

definition manipulability_cost ::
  "((nat \<times> nat \<Rightarrow> real) \<Rightarrow> real) \<Rightarrow> assisted_manipulation \<Rightarrow> dynamics
     \<Rightarrow> real \<times> assisted_manipulation" where
  "manipulability_cost determinant obj d =
     (let minimum = minimum_manipulability (m_configuration obj);
          space = (\<lambda>(i, j). \<Sum>k \<leftarrow> [0..<JOINTS]. jacobian d (i, k) * jacobian d (j, k));
          obj' = obj\<lparr>m_space_jacobian := space\<rparr>;
          ellipsoid_volume = sqrt (determinant space);
          ellipsoid_volume = (if ellipsoid_volume < 1 / 10 ^ 10 then 1 / 10 ^ 10
                              else ellipsoid_volume)
      in (quadratic_cost minimum * (1 / ellipsoid_volume) ^ 2, obj'))"

definition joint_limit_cost :: "assisted_manipulation \<Rightarrow> franka_state \<Rightarrow> real" where
  "joint_limit_cost obj state =
     fold (\<lambda>i cost.
        let lower = lower_joint_limit (m_configuration obj) i;
            upper = upper_joint_limit (m_configuration obj) i;
            p = position state i
        in if p < limit lower then
             cost + (constant_cost lower + quadratic_cost lower * (limit lower - p) ^ 2)
           else if p > limit upper then
             cost + (constant_cost upper + quadratic_cost lower * (p - limit upper) ^ 2)
           else cost)
       [0..<JOINTS] 0"

text \<open>\<^verbatim>\<open>reach_cost\<close> accumulates the penalty in \<open>cost\<close> and ends with \<^verbatim>\<open>return 0.0\<close>.\<close>

definition reach_cost :: "assisted_manipulation \<Rightarrow> dynamics \<Rightarrow> real" where
  "reach_cost obj d =
     (let cost = 0;
          min = minimum_reach (m_configuration obj);
          max = maximum_reach (m_configuration obj);
          offset = norm3 (get_frame_offset d BASE_LINK_JOINT PANDA_GRASP_JOINT);
          cost = (if offset < limit min then
                    cost + (constant_cost min + quadratic_cost min * (offset - limit min) ^ 2)
                  else if offset > limit max then
                    cost + (constant_cost max + quadratic_cost max * (offset - limit max) ^ 2)
                  else cost)
      in 0)"

definition variable_damping_cost :: "assisted_manipulation \<Rightarrow> franka_state \<Rightarrow> real" where
  "variable_damping_cost obj state = 0"

text \<open>\<^verbatim>\<open>AssistedManipulation::get_cost\<close>: the cost returned, and the object after the call.\<close>

definition get_cost ::
  "((nat \<times> nat \<Rightarrow> real) \<Rightarrow> real) \<Rightarrow> assisted_manipulation \<Rightarrow> franka_state \<Rightarrow> vec \<Rightarrow> dynamics
     \<Rightarrow> real \<Rightarrow> real \<times> assisted_manipulation" where
  "get_cost determinant obj state control d time =
     (let obj = (if enable_minimise_power (m_configuration obj)
                 then obj\<lparr>m_power_cost := power_cost obj d\<rparr> else obj);
          obj = (if enable_maximise_manipulability (m_configuration obj)
                 then (case manipulability_cost determinant obj d of
                         (c, obj') \<Rightarrow> obj'\<lparr>m_manipulability_cost := c\<rparr>)
                 else obj);
          obj = (if enable_joint_limit (m_configuration obj)
                 then obj\<lparr>m_joint_cost := joint_limit_cost obj state\<rparr> else obj);
          obj = (if enable_reach_limit (m_configuration obj)
                 then obj\<lparr>m_reach_cost := reach_cost obj d\<rparr> else obj);
          obj = (if enable_variable_damping (m_configuration obj)
                 then obj\<lparr>m_variable_damping_cost := variable_damping_cost obj state\<rparr> else obj);
          obj = obj\<lparr>m_cost := m_power_cost obj + m_manipulability_cost obj + m_joint_cost obj
                              + m_reach_cost obj\<rparr>
      in (m_cost obj, obj))"

text \<open>The same objective with the reach limit switched on or off.\<close>

definition with_reach_limit :: "bool \<Rightarrow> assisted_manipulation \<Rightarrow> assisted_manipulation" where
  "with_reach_limit b obj = obj\<lparr>m_configuration := (m_configuration obj)\<lparr>enable_reach_limit := b\<rparr>\<rparr>"

subsection \<open>A small objective\<close>

text \<open>
  An objective with only the reach limit enabled, and dynamics whose end effector sits on
  the base: the offset 0 is below the minimum reach of \<open>1/2\<close>.
\<close>

definition reach_only :: assisted_manipulation where
  "reach_only = AssistedManipulation (\<lambda>_. 0) 0
     \<lparr> enable_joint_limit = False, enable_reach_limit = True,
       enable_maximise_manipulability = False, enable_minimise_power = False,
       enable_variable_damping = False,
       lower_joint_limit = (\<lambda>_. \<lparr>limit = - 2, constant_cost = 1000, quadratic_cost = 10000\<rparr>),
       upper_joint_limit = (\<lambda>_. \<lparr>limit = 2, constant_cost = 1000, quadratic_cost = 10000\<rparr>),
       maximum_reach = \<lparr>limit = 1, constant_cost = 1000, quadratic_cost = 10000\<rparr>,
       minimum_reach = \<lparr>limit = 1 / 2, constant_cost = 1000, quadratic_cost = 10000\<rparr>,
       minimum_manipulability = \<lparr>limit = 0, constant_cost = 0, quadratic_cost = 0\<rparr>,
       maximum_power = \<lparr>limit = 0, constant_cost = 0, quadratic_cost = 0\<rparr>,
       variable_damping_maximum = 0, variable_damping_dropoff = 0 \<rparr>"

definition folded_arm :: dynamics where
  "folded_arm = \<lparr>get_power = 0, jacobian = (\<lambda>_. 0), get_frame_position = (\<lambda>_. (0, 0, 0))\<rparr>"

section \<open>Rollout weights\<close>

text \<open>
  Modelled from the spec: the weighting step of \<^verbatim>\<open>mppi::Trajectory::optimise\<close>, which
  \<^verbatim>\<open>mppi.hpp\<close> declares and whose definition is in no file at hand. A rollout cost is a
  finite number or not (NaN or infinite).
\<close>

datatype cost = Finite real | Non_Finite

text \<open>Modelled from the spec: the costs of the rollouts that did not fail.\<close>

fun finite_costs :: "cost list \<Rightarrow> real list" where
  "finite_costs [] = []"
| "finite_costs (Finite j # rest) = j # finite_costs rest"
| "finite_costs (Non_Finite # rest) = finite_costs rest"

text \<open>
  Modelled from the spec: \<open>J_min = min\<^sub>r J\<^sub>r\<close>, the least of the rollout costs (of the
  finite ones; it plays no role when there is none).
\<close>

definition J_min :: "cost list \<Rightarrow> real" where
  "J_min costs = (case finite_costs costs of [] \<Rightarrow> 0 | j # rest \<Rightarrow> fold min rest j)"

text \<open>
  Modelled from the spec: \<open>w\<^sub>r = exp (- (J\<^sub>r - J_min) / cost_scale)\<close>, and \<open>w\<^sub>r = 0\<close> if
  \<open>J\<^sub>r\<close> is non-finite.
\<close>

definition likelihood :: "real \<Rightarrow> real \<Rightarrow> cost \<Rightarrow> real" where
  "likelihood cost_scale j_min c =
     (case c of Finite j \<Rightarrow> exp (- (j - j_min) / cost_scale) | Non_Finite \<Rightarrow> 0)"

text \<open>Modelled from the spec: the weights before normalisation.\<close>

definition unnormalised_weights :: "real \<Rightarrow> cost list \<Rightarrow> real list" where
  "unnormalised_weights cost_scale costs = map (likelihood cost_scale (J_min costs)) costs"

text \<open>
  Modelled from the spec: the weights are normalised so that they sum to 1; if their sum is
  zero, the weight is spread evenly over the rollouts whose cost is finite.
\<close>

definition optimise_weights :: "real \<Rightarrow> cost list \<Rightarrow> real list" where
  "optimise_weights cost_scale costs =
     (let w = unnormalised_weights cost_scale costs;
          s = sum_list w
      in if s = 0 then
           map (\<lambda>c. case c of Finite _ \<Rightarrow> 1 / real (length (finite_costs costs))
                             | Non_Finite \<Rightarrow> 0) costs
         else map (\<lambda>x. x / s) w)"

subsection \<open>A small forecaster\<close>

text \<open>
  A filter with one state, and a forecaster whose last update was at time 1, with a horizon
  of 10 in steps of 1, whose prediction for step \<open>j\<close> is the number \<open>j\<close>.
\<close>

definition unit_filter :: kalman_filter where
  "unit_filter =
     \<lparr>m_observed_state_size = 1, m_estimated_state_size = 1,
      m_state_transition_matrix = mat_identity 1 1, m_transition_covariance = mat_identity 1 1,
      m_observation_matrix = mat_identity 1 1, m_observation_covariance = mat_identity 1 1,
      m_identity = mat_identity 1 1, m_covariance = mat_identity 1 1,
      m_state = [5], m_next_state = [5]\<rparr>"

definition ramp_forecast :: kalman_forecast where
  "ramp_forecast =
     \<lparr>m_observed_states = 1, m_estaimted_states = 1, m_horison = 10, m_time_step = 1,
      m_steps = 10, m_last_update = 1, m_measurement = [0],
      m_filter = unit_filter, m_predictor = unit_filter,
      m_prediction = \<lparr>rows = 1, cols = 11, coeff = (\<lambda>(i, j). real j)\<rparr>\<rparr>"

text \<open>The same forecaster with its last update at time 20, and at time 0.\<close>

definition late_forecast :: kalman_forecast where
  "late_forecast = ramp_forecast\<lparr>m_last_update := 20\<rparr>"

definition fresh_forecast :: kalman_forecast where
  "fresh_forecast = ramp_forecast\<lparr>m_last_update := 0\<rparr>"

section \<open>Properties of the moving-average forecaster\<close>

lemma accumulate_sum:
  assumes "length tot = n" and "\<forall>element \<in> set es. length (snd element) = n"
  shows "\<exists>t. accumulate tot es = Inr t \<and> length t = n \<and>
           (\<forall>i < n. t ! i = tot ! i + (\<Sum>element \<leftarrow> es. snd element ! i))"
  using assms
proof (induction es arbitrary: tot)
  case Nil
  then show ?case by simp
next
  case (Cons e es)
  let ?t = "map2 (+) tot (snd e)"
  have le: "length (snd e) = n" using Cons.prems by simp
  have step: "vadd tot (snd e) = Inr ?t"
    using Cons.prems le by (simp add: vadd_def)
  have len: "length ?t = n" using Cons.prems le by simp
  have rest: "\<forall>element \<in> set es. length (snd element) = n" using Cons.prems by simp
  from Cons.IH [OF len rest] obtain t where
    t: "accumulate ?t es = Inr t" "length t = n"
       "\<forall>i < n. t ! i = ?t ! i + (\<Sum>element \<leftarrow> es. snd element ! i)"
    by blast
  have "\<forall>i < n. t ! i = tot ! i + (\<Sum>element \<leftarrow> e # es. snd element ! i)"
    using t(3) Cons.prems(1) le by simp
  with t(1,2) step show ?case by simp
qed

lemma update_average_mean:
  assumes "m_buffer s \<noteq> []" and "\<forall>element \<in> set (m_buffer s). length (snd element) = n"
  shows "\<exists>s'. update_average s = Inr s' \<and> m_buffer s' = m_buffer s \<and>
           m_window s' = m_window s \<and> is_mean n s'"
proof -
  obtain first rest where b: "m_buffer s = first # rest"
    using assms(1) by (cases "m_buffer s") auto
  have "length (snd first) = n" "\<forall>element \<in> set rest. length (snd element) = n"
    using assms(2) b by simp_all
  from accumulate_sum [OF this] obtain t where
    t: "accumulate (snd first) rest = Inr t" "length t = n"
       "\<forall>i < n. t ! i = snd first ! i + (\<Sum>element \<leftarrow> rest. snd element ! i)"
    by blast
  let ?s' = "s\<lparr>m_average := vdiv t (real (length (m_buffer s)))\<rparr>"
  have u: "update_average s = Inr ?s'"
    using b t(1) by (simp add: update_average_def)
  have "is_mean n ?s'"
    using t(2,3) b by (simp add: is_mean_def vdiv_def)
  with u show ?thesis by auto
qed

lemma upper_bound_sorted:
  assumes "sorted (map fst xs)"
  shows "drop (upper_bound c xs) xs = filter (\<lambda>element. c < fst element) xs"
  using assms
proof (induction xs)
  case Nil
  then show ?case by (simp add: upper_bound_def)
next
  case (Cons x xs)
  show ?case
  proof (cases "c < fst x")
    case True
    then have "\<forall>element \<in> set xs. c < fst element"
      using Cons.prems by fastforce
    then have "filter (\<lambda>element. c < fst element) xs = xs"
      by (simp add: filter_id_conv)
    with True show ?thesis by (simp add: upper_bound_def)
  next
    case False
    with Cons show ?thesis by (simp add: upper_bound_def)
  qed
qed

lemma clear_old_measurements_retained:
  assumes "m_buffer s \<noteq> []" and "sorted (map fst (m_buffer s))"
  shows "clear_old_measurements fp time s =
           Inr (s\<lparr>m_buffer := retained (d_minus fp time (m_window s)) (m_buffer s)\<rparr>)"
proof -
  let ?c = "d_minus fp time (m_window s)"
  let ?xs = "m_buffer s"
  let ?P = "\<lambda>element. ?c < fst element"
  have split: "?xs = butlast ?xs @ [last ?xs]" using assms(1) by simp
  show ?thesis
  proof (cases "upper_bound ?c ?xs = length ?xs")
    case True
    then have "filter ?P ?xs = []"
      using upper_bound_sorted [OF assms(2), of ?c] by simp
    then have none: "\<forall>element \<in> set ?xs. \<not> ?P element"
      by (simp add: filter_empty_conv)
    have "set (butlast ?xs) \<subseteq> set ?xs" by (meson in_set_butlastD subsetI)
    with none have "filter ?P (butlast ?xs) = []"
      by (auto simp: filter_empty_conv)
    moreover have "drop (length ?xs - 1) ?xs = [last ?xs]"
      using assms(1) by (metis split append_eq_conv_conj length_butlast)
    ultimately show ?thesis
      using True assms(1) by (simp add: clear_old_measurements_def Let_def retained_def)
  next
    case False
    have "upper_bound ?c ?xs \<le> length ?xs"
      unfolding upper_bound_def by (rule length_takeWhile_le)
    with False have "drop (upper_bound ?c ?xs) ?xs \<noteq> []" by simp
    then have "filter ?P ?xs \<noteq> []"
      using upper_bound_sorted [OF assms(2), of ?c] by simp
    then obtain y where y: "y \<in> set ?xs" "?P y"
      by (auto simp: filter_empty_conv)
    have "fst y \<le> fst (last ?xs)"
    proof -
      obtain i where i: "i < length ?xs" "?xs ! i = y"
        using y(1) by (auto simp: in_set_conv_nth)
      have "map fst ?xs ! i \<le> map fst ?xs ! (length ?xs - 1)"
        using assms(2) i(1) by (intro sorted_nth_mono) auto
      then show ?thesis
        using i assms(1) by (simp add: last_conv_nth)
    qed
    with y(2) have "?P (last ?xs)" by simp
    then have "filter ?P ?xs = filter ?P (butlast ?xs) @ [last ?xs]"
      by (subst split) (simp del: append_butlast_last_id)
    then show ?thesis
      using False upper_bound_sorted [OF assms(2), of ?c]
      by (simp add: clear_old_measurements_def Let_def retained_def)
  qed
qed

lemma clear_old_measurements_drop:
  assumes "m_buffer s \<noteq> []"
  shows "\<exists>k < length (m_buffer s).
           clear_old_measurements fp time s = Inr (s\<lparr>m_buffer := drop k (m_buffer s)\<rparr>)"
proof -
  let ?it = "upper_bound (d_minus fp time (m_window s)) (m_buffer s)"
  have le: "?it \<le> length (m_buffer s)"
    unfolding upper_bound_def by (rule length_takeWhile_le)
  show ?thesis
  proof (cases "?it = length (m_buffer s)")
    case True
    with assms have "length (m_buffer s) - 1 < length (m_buffer s)" by simp
    moreover have "clear_old_measurements fp time s =
        Inr (s\<lparr>m_buffer := drop (length (m_buffer s) - 1) (m_buffer s)\<rparr>)"
      using True assms by (simp add: clear_old_measurements_def Let_def)
    ultimately show ?thesis by blast
  next
    case False
    with le have "?it < length (m_buffer s)" by simp
    moreover have "clear_old_measurements fp time s = Inr (s\<lparr>m_buffer := drop ?it (m_buffer s)\<rparr>)"
      using False by (simp add: clear_old_measurements_def Let_def)
    ultimately show ?thesis by blast
  qed
qed

text \<open>
  Claim C7. An observation whose time stamp is strictly older than the newest one in the
  buffer is rejected: the call returns the forecaster as it was (its buffer, its stored
  average and so every later forecast are unchanged). An observation stamped like the
  newest one, or later, is accepted: the call returns with the observation as the newest
  element of the buffer.
\<close>

theorem AverageForecast_rejects_older:
  assumes "m_buffer s \<noteq> []"
    and "\<forall>element \<in> set (m_buffer s). length (snd element) = n"
    and "length v = n"
  shows "(time < fst (last (m_buffer s)) \<longrightarrow>
            AverageForecast_update fp v time s = Inr s \<and>
            (\<forall>t. AverageForecast_forecast s t = m_average s))
       \<and> (fst (last (m_buffer s)) \<le> time \<longrightarrow>
            (\<exists>s'. AverageForecast_update fp v time s = Inr s' \<and>
               m_buffer s' \<noteq> [] \<and> last (m_buffer s') = (time, v)))"
proof -
  have rejected: "AverageForecast_update fp v time s = Inr s" if "time < fst (last (m_buffer s))"
    using assms(1) that by (simp add: AverageForecast_update_def)
  have accepted: "\<exists>s'. AverageForecast_update fp v time s = Inr s' \<and>
               m_buffer s' \<noteq> [] \<and> last (m_buffer s') = (time, v)"
    if le: "fst (last (m_buffer s)) \<le> time"
  proof -
    let ?b = "m_buffer s @ [(time, v)]"
    let ?s0 = "s\<lparr>m_buffer := ?b\<rparr>"
    have "m_buffer ?s0 \<noteq> []" by simp
    from clear_old_measurements_drop [OF this, of fp time] obtain k where
      k: "k < length ?b" and c: "clear_old_measurements fp time ?s0 = Inr (?s0\<lparr>m_buffer := drop k ?b\<rparr>)"
      by auto
    let ?s1 = "?s0\<lparr>m_buffer := drop k ?b\<rparr>"
    have ne: "m_buffer ?s1 \<noteq> []"
      using k by (simp del: drop_append length_append)
    have la: "last (m_buffer ?s1) = (time, v)"
      using last_drop [OF k] by simp
    have "set (drop k ?b) \<subseteq> set ?b" by (rule set_drop_subset)
    then have "\<forall>element \<in> set (m_buffer ?s1). length (snd element) = n"
      using assms(2,3) by auto
    from update_average_mean [OF ne this] obtain s' where
      s': "update_average ?s1 = Inr s'" "m_buffer s' = m_buffer ?s1"
      by blast
    have "AverageForecast_update fp v time s = Inr s'"
      using assms(1) le c s'(1) by (simp add: AverageForecast_update_def)
    with s'(2) ne la show ?thesis by auto
  qed
  from rejected accepted show ?thesis by (simp add: AverageForecast_forecast_def)
qed

theorem AverageForecast_rejects_older_witness:
  "AverageForecast_update exact_arithmetic [5] 2 \<lparr>m_window = 1, m_buffer = [(1, [2]), (3, [4])], m_average = [3]\<rparr>
     = Inr \<lparr>m_window = 1, m_buffer = [(1, [2]), (3, [4])], m_average = [3]\<rparr>
   \<and> (\<exists>s'. AverageForecast_update exact_arithmetic [5] 3 \<lparr>m_window = 1, m_buffer = [(1, [2]), (3, [4])], m_average = [3]\<rparr>
           = Inr s' \<and> m_buffer s' \<noteq> [] \<and> last (m_buffer s') = (3, [5]))"
  using AverageForecast_rejects_older
          [of "\<lparr>m_window = 1, m_buffer = [(1, [2]), (3, [4])], m_average = [3]\<rparr>" 1 "[5]" 2
              exact_arithmetic]
        AverageForecast_rejects_older
          [of "\<lparr>m_window = 1, m_buffer = [(1, [2]), (3, [4])], m_average = [3]\<rparr>" 1 "[5]" 3
              exact_arithmetic]
  by simp

lemma retained_is_drop:
  assumes "xs \<noteq> []" and "sorted (map fst xs)"
  shows "\<exists>k < length xs. retained c xs = drop k xs"
proof -
  define s :: average_forecast where "s = \<lparr>m_window = 0, m_buffer = xs, m_average = []\<rparr>"
  have ne: "m_buffer s \<noteq> []" and so: "sorted (map fst (m_buffer s))"
    using assms by (simp_all add: s_def)
  have cut: "d_minus exact_arithmetic c (m_window s) = c"
    by (simp add: exact_arithmetic_def s_def)
  from clear_old_measurements_drop [OF ne, of exact_arithmetic c] obtain k where
    k: "k < length (m_buffer s)"
       "clear_old_measurements exact_arithmetic c s = Inr (s\<lparr>m_buffer := drop k (m_buffer s)\<rparr>)"
    by blast
  from clear_old_measurements_retained [OF ne so, of exact_arithmetic c] k(2)
  have "s\<lparr>m_buffer := retained c (m_buffer s)\<rparr> = s\<lparr>m_buffer := drop k (m_buffer s)\<rparr>"
    by (simp add: cut)
  then have "m_buffer (s\<lparr>m_buffer := retained c (m_buffer s)\<rparr>)
           = m_buffer (s\<lparr>m_buffer := drop k (m_buffer s)\<rparr>)"
    by (rule arg_cong)
  then have "retained c xs = drop k xs" by (simp add: s_def)
  with k(1) show ?thesis by (auto simp: s_def)
qed

lemma retained_facts:
  assumes "xs \<noteq> []" and "sorted (map fst xs)"
  shows "retained c xs \<noteq> []"
    and "last (retained c xs) = last xs"
    and "butlast (retained c xs) = filter (\<lambda>element. c < fst element) (butlast xs)"
    and "sorted (map fst (retained c xs))"
    and "set (retained c xs) \<subseteq> set xs"
proof -
  show "retained c xs \<noteq> []" "last (retained c xs) = last xs"
    "butlast (retained c xs) = filter (\<lambda>element. c < fst element) (butlast xs)"
    by (simp_all add: retained_def)
  from retained_is_drop [OF assms, of c] obtain k where k: "retained c xs = drop k xs"
    by blast
  show "sorted (map fst (retained c xs))"
    unfolding k using assms(2) by (simp add: drop_map [symmetric] sorted_wrt_drop)
  show "set (retained c xs) \<subseteq> set xs"
    unfolding k by (rule set_drop_subset)
qed

text \<open>
  What the two updates keep, in terms of the elements of the buffer, the constructor's
  placeholder among them: the elements stamped later than the cutoff that the machine
  computes from \<open>time\<close> and the window, and always the last one.
\<close>

lemma AverageForecast_update_time_retained:
  assumes "average_wf n s"
  shows "\<exists>s'. AverageForecast_update_time fp time s = Inr s' \<and>
           m_buffer s' = retained (d_minus fp time (m_window s)) (m_buffer s) \<and>
           m_window s' = m_window s \<and> is_mean n s' \<and> average_wf n s'"
proof -
  let ?xs = "m_buffer s"
  let ?r = "retained (d_minus fp time (m_window s)) ?xs"
  have ne: "?xs \<noteq> []" and so: "sorted (map fst ?xs)"
    and len: "\<forall>element \<in> set ?xs. length (snd element) = n"
    using assms by (simp_all add: average_wf_def)
  note r = retained_facts [OF ne so, of "d_minus fp time (m_window s)"]
  let ?s1 = "s\<lparr>m_buffer := ?r\<rparr>"
  have c: "clear_old_measurements fp time s = Inr ?s1"
    by (rule clear_old_measurements_retained [OF ne so])
  have ne1: "m_buffer ?s1 \<noteq> []" using r(1) by simp
  have len1: "\<forall>element \<in> set (m_buffer ?s1). length (snd element) = n"
    using r(5) len by auto
  from update_average_mean [OF ne1 len1] obtain s' where
    s': "update_average ?s1 = Inr s'" "m_buffer s' = ?r" "m_window s' = m_window s" "is_mean n s'"
    by auto
  have u: "AverageForecast_update_time fp time s = Inr s'"
    using c s'(1) by (simp add: AverageForecast_update_time_def)
  have "average_wf n s'"
    using s' r(1,4) len1 by (simp add: average_wf_def)
  with u s' show ?thesis by blast
qed

lemma AverageForecast_update_retained:
  assumes "average_wf n s" and "length v = n" and "\<not> time < fst (last (m_buffer s))"
  shows "\<exists>s'. AverageForecast_update fp v time s = Inr s' \<and>
           m_buffer s' = retained (d_minus fp time (m_window s)) (m_buffer s @ [(time, v)]) \<and>
           m_window s' = m_window s \<and> is_mean n s' \<and> average_wf n s'"
proof -
  let ?xs = "m_buffer s @ [(time, v)]"
  let ?s0 = "s\<lparr>m_buffer := ?xs\<rparr>"
  let ?r = "retained (d_minus fp time (m_window s)) ?xs"
  have ne0: "m_buffer s \<noteq> []" and so0: "sorted (map fst (m_buffer s))"
    and len0: "\<forall>element \<in> set (m_buffer s). length (snd element) = n"
    using assms(1) by (simp_all add: average_wf_def)
  have ne: "?xs \<noteq> []" by simp
  have "\<forall>x \<in> set (map fst (m_buffer s)). x \<le> time"
  proof
    fix x assume "x \<in> set (map fst (m_buffer s))"
    then obtain i where i: "i < length (m_buffer s)" "map fst (m_buffer s) ! i = x"
      by (auto simp: in_set_conv_nth)
    have "map fst (m_buffer s) ! i \<le> map fst (m_buffer s) ! (length (m_buffer s) - 1)"
      using so0 i(1) by (intro sorted_nth_mono) auto
    then have "x \<le> fst (last (m_buffer s))"
      using i ne0 by (simp add: last_conv_nth)
    with assms(3) show "x \<le> time" by simp
  qed
  then have so: "sorted (map fst ?xs)"
    using so0 by (simp add: sorted_append)
  note r = retained_facts [OF ne so, of "d_minus fp time (m_window s)"]
  let ?s1 = "?s0\<lparr>m_buffer := ?r\<rparr>"
  have "m_buffer ?s0 \<noteq> []" "sorted (map fst (m_buffer ?s0))"
    using so by simp_all
  from clear_old_measurements_retained [OF this, of fp time]
  have c: "clear_old_measurements fp time ?s0 = Inr ?s1" by simp
  have ne1: "m_buffer ?s1 \<noteq> []" using r(1) by simp
  have len1: "\<forall>element \<in> set (m_buffer ?s1). length (snd element) = n"
    using r(5) len0 assms(2) by auto
  from update_average_mean [OF ne1 len1] obtain s' where
    s': "update_average ?s1 = Inr s'" "m_buffer s' = ?r" "m_window s' = m_window s" "is_mean n s'"
    by auto
  have u: "AverageForecast_update fp v time s = Inr s'"
    using ne0 assms(3) c s'(1) by (simp add: AverageForecast_update_def)
  have "average_wf n s'"
    using s' r(1,4) len1 by (simp add: average_wf_def)
  with u s' show ?thesis by auto
qed

lemma AverageForecast_wf: "average_wf n (AverageForecast w n)"
  by (simp add: average_wf_def AverageForecast_def is_mean_def vzero_def)

lemma DBL_MIN_range: "0 < DBL_MIN" "DBL_MIN \<le> 1"
  by (simp_all add: DBL_MIN_def divide_le_eq_1)

text \<open>
  Claim C4 says that after an update the buffer holds exactly the observations stamped
  later than \<open>time - window\<close> and the most recent one, and that the forecast is their mean.
  The forecaster does not do that. Its constructor puts a zero placeholder into the buffer,
  stamped with the smallest positive \<^verbatim>\<open>double\<close>, which according to the comment beside it
  ``will be erased on first update''. Created with a window of 1 and given the single
  observation \<open>[2]\<close> at time 1, the forecaster still holds the placeholder, and its
  forecast is \<open>[1]\<close>, the mean of the placeholder and the observation, where the claim has
  the buffer \<open>[(1, [2])]\<close> and the forecast \<open>[2]\<close>. Given the observation at time 0 instead,
  it rejects it as older than the placeholder and forecasts \<open>[0]\<close>.
\<close>

theorem AverageForecast_keeps_placeholder:
  "AverageForecast_create \<lparr>average_window = 1, average_states = 1\<rparr> = Some (AverageForecast 1 1)
   \<and> AverageForecast_update exact_arithmetic [2] 1 (AverageForecast 1 1) =
       Inr \<lparr>m_window = 1, m_buffer = [(DBL_MIN, [0]), (1, [2])], m_average = [1]\<rparr>
   \<and> AverageForecast_forecast
         \<lparr>m_window = 1, m_buffer = [(DBL_MIN, [0]), (1, [2])], m_average = [1]\<rparr> 1 = [1]
   \<and> retained (1 - 1) [(1, [2])] = [(1, [2])]
   \<and> [(DBL_MIN, [0]), (1, [2 :: real])] \<noteq> retained (1 - 1) [(1, [2])]
   \<and> AverageForecast_update exact_arithmetic [2] 0 (AverageForecast 1 1) = Inr (AverageForecast 1 1)
   \<and> AverageForecast_forecast (AverageForecast 1 1) 0 = [0]"
proof -
  have neg: "\<not> 1 < DBL_MIN" using DBL_MIN_range(2) by simp
  have a: "AverageForecast_create \<lparr>average_window = 1, average_states = 1\<rparr>
             = Some (AverageForecast 1 1)"
    by (simp add: AverageForecast_create_def)
  have b: "AverageForecast_update exact_arithmetic [2] 1 (AverageForecast 1 1) =
       Inr \<lparr>m_window = 1, m_buffer = [(DBL_MIN, [0]), (1, [2])], m_average = [1]\<rparr>"
    using DBL_MIN_range(1) neg
    by (simp add: AverageForecast_update_def AverageForecast_def vzero_def
        clear_old_measurements_def upper_bound_def exact_arithmetic_def Let_def
        update_average_def vadd_def vdiv_def)
  have c: "AverageForecast_forecast
         \<lparr>m_window = 1, m_buffer = [(DBL_MIN, [0]), (1, [2])], m_average = [1]\<rparr> 1 = [1]"
    by (simp add: AverageForecast_forecast_def)
  have d: "retained (1 - 1) [(1, [2])] = [(1, [2])]"
    by (simp add: retained_def)
  have e: "AverageForecast_update exact_arithmetic [2] 0 (AverageForecast 1 1)
             = Inr (AverageForecast 1 1)"
    using DBL_MIN_range(1) by (simp add: AverageForecast_update_def AverageForecast_def)
  have f: "AverageForecast_forecast (AverageForecast 1 1) 0 = [0]"
    by (simp add: AverageForecast_forecast_def AverageForecast_def vzero_def)
  from a b c d e f show ?thesis by simp
qed

section \<open>Properties of the Kalman filter and forecaster\<close>

lemma mat_vec_length:
  assumes "cols A = length x"
  shows "\<exists>y. mat_vec A x = Inr y \<and> length y = rows A"
  using assms by (simp add: mat_vec_def)

lemma KalmanFilter_constructed:
  assumes "shapes_correct c"
  shows "\<exists>f. KalmanFilter c = Inr f \<and> m_state f = initial_state c \<and>
           m_covariance f = initial_covariance c \<and> filter_shapes (states c) f"
proof -
  have "cols (state_transition_matrix c) = length (initial_state c)"
    using assms by (simp add: shapes_correct_def)
  from mat_vec_length [OF this] obtain y where
    y: "mat_vec (state_transition_matrix c) (initial_state c) = Inr y"
       "length y = rows (state_transition_matrix c)"
    by blast
  then show ?thesis
    using assms by (simp add: KalmanFilter_def and_then_def shapes_correct_def filter_shapes_def)
qed

lemma KalmanFilter_create_valid:
  assumes "shapes_correct c"
  shows "\<exists>f. KalmanFilter_create c = Inr (Some f) \<and> KalmanFilter c = Inr f \<and>
           filter_shapes (states c) f"
proof -
  from KalmanFilter_constructed [OF assms] obtain f where
    f: "KalmanFilter c = Inr f" "filter_shapes (states c) f"
    by blast
  have "cols (state_transition_matrix c) = length (m_next_state f)"
    using f(2) assms by (simp add: filter_shapes_def shapes_correct_def)
  from mat_vec_length [OF this] obtain y where
    y: "mat_vec (state_transition_matrix c) (m_next_state f) = Inr y"
    by blast
  have "KalmanFilter_create c = Inr (Some f)"
    using assms f(1) y
    by (simp add: KalmanFilter_create_def check_dimensions_def as_matrix_def
        shapes_correct_def and_then_def)
  with f show ?thesis by blast
qed

lemma KalmanFilter_create_invalid:
  assumes "\<not> shapes_correct c"
  shows "KalmanFilter_create c = Inr None"
  using assms
  by (auto simp: KalmanFilter_create_def check_dimensions_def as_matrix_def shapes_correct_def)

text \<open>
  Claim C6. \<^verbatim>\<open>KalmanFilter::create\<close> returns the null pointer exactly when one of the
  configured matrices or the initial state has the wrong shape; with every shape right it
  returns a filter (the one its constructor builds from the configuration).
\<close>

theorem KalmanFilter_create_null_iff_wrong_shape:
  "(KalmanFilter_create c = Inr None \<longleftrightarrow> \<not> shapes_correct c) \<and>
   (shapes_correct c \<longrightarrow>
      (\<exists>f. KalmanFilter_create c = Inr (Some f) \<and> KalmanFilter c = Inr f))"
proof (cases "shapes_correct c")
  case True
  from KalmanFilter_create_valid [OF True] show ?thesis using True by auto
next
  case False
  from KalmanFilter_create_invalid [OF False] show ?thesis using False by simp
qed

theorem KalmanFilter_create_null_iff_wrong_shape_witness:
  "shapes_correct
     \<lparr>observed_states = 1, states = 2,
      state_transition_matrix = mat_identity 2 2, transition_covariance = mat_identity 2 2,
      observation_matrix = mat_identity 1 2, observation_covariance = mat_identity 1 1,
      initial_state = [3, 4], initial_covariance = mat_identity 2 2\<rparr>
   \<and> (\<exists>f. KalmanFilter_create
          \<lparr>observed_states = 1, states = 2,
           state_transition_matrix = mat_identity 2 2, transition_covariance = mat_identity 2 2,
           observation_matrix = mat_identity 1 2, observation_covariance = mat_identity 1 1,
           initial_state = [3, 4], initial_covariance = mat_identity 2 2\<rparr> = Inr (Some f))
   \<and> \<not> shapes_correct
     \<lparr>observed_states = 1, states = 2,
      state_transition_matrix = mat_identity 2 2, transition_covariance = mat_identity 2 2,
      observation_matrix = mat_identity 2 2, observation_covariance = mat_identity 1 1,
      initial_state = [3, 4], initial_covariance = mat_identity 2 2\<rparr>
   \<and> KalmanFilter_create
       \<lparr>observed_states = 1, states = 2,
        state_transition_matrix = mat_identity 2 2, transition_covariance = mat_identity 2 2,
        observation_matrix = mat_identity 2 2, observation_covariance = mat_identity 1 1,
        initial_state = [3, 4], initial_covariance = mat_identity 2 2\<rparr> = Inr None"
proof -
  let ?good = "\<lparr>observed_states = 1, states = 2,
      state_transition_matrix = mat_identity 2 2, transition_covariance = mat_identity 2 2,
      observation_matrix = mat_identity 1 2, observation_covariance = mat_identity 1 1,
      initial_state = [3, 4], initial_covariance = mat_identity 2 2\<rparr>"
  let ?bad = "\<lparr>observed_states = 1, states = 2,
      state_transition_matrix = mat_identity 2 2, transition_covariance = mat_identity 2 2,
      observation_matrix = mat_identity 2 2, observation_covariance = mat_identity 1 1,
      initial_state = [3, 4], initial_covariance = mat_identity 2 2\<rparr>"
  have good: "shapes_correct ?good" by (simp add: shapes_correct_def mat_identity_def)
  have bad: "\<not> shapes_correct ?bad" by (simp add: shapes_correct_def mat_identity_def)
  from KalmanFilter_create_null_iff_wrong_shape [of ?good] good
  have a: "\<exists>f. KalmanFilter_create ?good = Inr (Some f)" by blast
  from KalmanFilter_create_null_iff_wrong_shape [of ?bad] bad
  have b: "KalmanFilter_create ?bad = Inr None" by blast
  from good a bad b show ?thesis by blast
qed

lemma KalmanFilter_predict_shapes:
  assumes "filter_shapes n f"
  shows "\<exists>state next_state covariance.
           KalmanFilter_predict update_covariance f =
             Inr (f\<lparr>m_covariance := covariance, m_state := state, m_next_state := next_state\<rparr>) \<and>
           filter_shapes n
             (f\<lparr>m_covariance := covariance, m_state := state, m_next_state := next_state\<rparr>)"
proof -
  let ?F = "m_state_transition_matrix f"
  have sh: "rows ?F = n" "cols ?F = n" "rows (m_transition_covariance f) = n"
    "cols (m_transition_covariance f) = n" "rows (m_covariance f) = n"
    "cols (m_covariance f) = n" "length (m_next_state f) = n"
    using assms by (simp_all add: filter_shapes_def)
  have "cols ?F = length (m_next_state f)" using sh by simp
  from mat_vec_length [OF this] obtain y where
    y: "mat_vec ?F (m_next_state f) = Inr y" "length y = n"
    using sh by auto
  show ?thesis
  proof (cases update_covariance)
    case False
    have "KalmanFilter_predict update_covariance f =
            Inr (f\<lparr>m_covariance := m_covariance f, m_state := m_next_state f, m_next_state := y\<rparr>)"
      using False y(1) by (simp add: KalmanFilter_predict_def and_then_def)
    moreover have "filter_shapes n
        (f\<lparr>m_covariance := m_covariance f, m_state := m_next_state f, m_next_state := y\<rparr>)"
      using sh y(2) by (simp add: filter_shapes_def)
    ultimately show ?thesis by blast
  next
    case True
    obtain fp where fp: "mat_mul ?F (m_covariance f) = Inr fp" "rows fp = n" "cols fp = n"
      using sh by (simp add: mat_mul_def)
    obtain fpf where fpf: "mat_mul fp (mat_transpose ?F) = Inr fpf" "rows fpf = n" "cols fpf = n"
      using sh fp(2,3) by (simp add: mat_mul_def mat_transpose_def)
    obtain cv where cv: "mat_add fpf (m_transition_covariance f) = Inr cv" "rows cv = n" "cols cv = n"
      using sh fpf(2,3) by (simp add: mat_add_def)
    have "KalmanFilter_predict update_covariance f =
            Inr (f\<lparr>m_covariance := cv, m_state := m_next_state f, m_next_state := y\<rparr>)"
      using True y(1) fp(1) fpf(1) cv(1)
      by (simp add: KalmanFilter_predict_def and_then_def)
    moreover have "filter_shapes n (f\<lparr>m_covariance := cv, m_state := m_next_state f, m_next_state := y\<rparr>)"
      using sh y(2) cv(2,3) by (simp add: filter_shapes_def)
    ultimately show ?thesis by blast
  qed
qed

text \<open>
  Claim C9. The observation-free \<^verbatim>\<open>KalmanForecast::update(time)\<close> returns with the
  prediction buffer, the time of the last update and every other member but the filter as
  they were, so every later forecast is the same; the filter is the result of one predict
  step, which changes nothing but its estimate, its next estimate and its covariance.
\<close>

theorem KalmanForecast_update_time_frame:
  assumes "filter_shapes n (m_filter s)"
  shows "\<exists>s'. KalmanForecast_update_time update_covariance time s = Inr s' \<and>
           m_prediction s' = m_prediction s \<and>
           m_last_update s' = m_last_update s \<and>
           s' = s\<lparr>m_filter := m_filter s'\<rparr> \<and>
           (\<forall>fp ndebug t.
              KalmanForecast_forecast fp ndebug s' t = KalmanForecast_forecast fp ndebug s t) \<and>
           KalmanFilter_predict update_covariance (m_filter s) = Inr (m_filter s') \<and>
           (\<exists>state next_state covariance.
              m_filter s' = (m_filter s)
                \<lparr>m_covariance := covariance, m_state := state, m_next_state := next_state\<rparr>)"
proof -
  from KalmanFilter_predict_shapes [OF assms, of update_covariance]
  obtain st nx cv where
    p: "KalmanFilter_predict update_covariance (m_filter s) =
          Inr ((m_filter s)\<lparr>m_covariance := cv, m_state := st, m_next_state := nx\<rparr>)"
    by blast
  let ?f = "(m_filter s)\<lparr>m_covariance := cv, m_state := st, m_next_state := nx\<rparr>"
  let ?s' = "s\<lparr>m_filter := ?f\<rparr>"
  have u: "KalmanForecast_update_time update_covariance time s = Inr ?s'"
    using p by (simp add: KalmanForecast_update_time_def and_then_def)
  have fc: "KalmanForecast_forecast fp ndebug ?s' t = KalmanForecast_forecast fp ndebug s t"
    for fp ndebug t
    by (simp add: KalmanForecast_forecast_def Let_def cong: if_cong)
  have "\<exists>state next_state covariance.
          m_filter ?s' = (m_filter s)
            \<lparr>m_covariance := covariance, m_state := state, m_next_state := next_state\<rparr>"
    by auto
  with u p fc show ?thesis by simp
qed

theorem KalmanForecast_update_time_frame_witness:
  "filter_shapes 1
     (m_filter \<lparr>m_observed_states = 1, m_estaimted_states = 1, m_horison = 1, m_time_step = 1,
        m_steps = 1, m_last_update = 0, m_measurement = [0],
        m_filter = \<lparr>m_observed_state_size = 1, m_estimated_state_size = 1,
          m_state_transition_matrix = mat_identity 1 1, m_transition_covariance = mat_identity 1 1,
          m_observation_matrix = mat_identity 1 1, m_observation_covariance = mat_identity 1 1,
          m_identity = mat_identity 1 1, m_covariance = mat_identity 1 1,
          m_state = [5], m_next_state = [5]\<rparr>,
        m_predictor = \<lparr>m_observed_state_size = 1, m_estimated_state_size = 1,
          m_state_transition_matrix = mat_identity 1 1, m_transition_covariance = mat_identity 1 1,
          m_observation_matrix = mat_identity 1 1, m_observation_covariance = mat_identity 1 1,
          m_identity = mat_identity 1 1, m_covariance = mat_identity 1 1,
          m_state = [5], m_next_state = [5]\<rparr>,
        m_prediction = mat_zero 1 2\<rparr>)
   \<and> (\<exists>s'. KalmanForecast_update_time True 7
        \<lparr>m_observed_states = 1, m_estaimted_states = 1, m_horison = 1, m_time_step = 1,
        m_steps = 1, m_last_update = 0, m_measurement = [0],
        m_filter = \<lparr>m_observed_state_size = 1, m_estimated_state_size = 1,
          m_state_transition_matrix = mat_identity 1 1, m_transition_covariance = mat_identity 1 1,
          m_observation_matrix = mat_identity 1 1, m_observation_covariance = mat_identity 1 1,
          m_identity = mat_identity 1 1, m_covariance = mat_identity 1 1,
          m_state = [5], m_next_state = [5]\<rparr>,
        m_predictor = \<lparr>m_observed_state_size = 1, m_estimated_state_size = 1,
          m_state_transition_matrix = mat_identity 1 1, m_transition_covariance = mat_identity 1 1,
          m_observation_matrix = mat_identity 1 1, m_observation_covariance = mat_identity 1 1,
          m_identity = mat_identity 1 1, m_covariance = mat_identity 1 1,
          m_state = [5], m_next_state = [5]\<rparr>,
        m_prediction = mat_zero 1 2\<rparr> = Inr s'
        \<and> m_prediction s' = mat_zero 1 2 \<and> m_last_update s' = 0)"
proof -
  let ?f = "\<lparr>m_observed_state_size = 1, m_estimated_state_size = 1,
          m_state_transition_matrix = mat_identity 1 1, m_transition_covariance = mat_identity 1 1,
          m_observation_matrix = mat_identity 1 1, m_observation_covariance = mat_identity 1 1,
          m_identity = mat_identity 1 1, m_covariance = mat_identity 1 1,
          m_state = [5], m_next_state = [5]\<rparr>"
  let ?s = "\<lparr>m_observed_states = 1, m_estaimted_states = 1, m_horison = 1, m_time_step = 1,
        m_steps = 1, m_last_update = 0, m_measurement = [0],
        m_filter = ?f, m_predictor = ?f, m_prediction = mat_zero 1 2\<rparr>"
  have h: "filter_shapes 1 (m_filter ?s)"
    by (simp add: filter_shapes_def mat_identity_def)
  from KalmanForecast_update_time_frame [OF h, of True 7]
  have "\<exists>s'. KalmanForecast_update_time True 7 ?s = Inr s' \<and>
           m_prediction s' = mat_zero 1 2 \<and> m_last_update s' = 0"
    by simp blast
  with h show ?thesis by blast
qed

section \<open>Properties of the choice of forecaster\<close>

text \<open>
  Claim C10. With the type \<open>AVERAGE\<close>, \<^verbatim>\<open>Forecast::create\<close> returns the null pointer
  whenever the LOCF member of the configuration is absent, whether the AVERAGE member is
  present or not; and when the LOCF member is present, the AVERAGE member is dereferenced
  without a check, so an absent one is an access to an empty optional.
\<close>

theorem Forecast_create_average_checks_locf:
  "(type c = AVERAGE \<and> locf c = None \<longrightarrow>
      Forecast_create fp locf_create uninitialised c = Inr None) \<and>
   (type c = AVERAGE \<and> locf c \<noteq> None \<and> average c = None \<longrightarrow>
      Forecast_create fp locf_create uninitialised c = Inl Empty_Optional) \<and>
   (type c = AVERAGE \<and> locf c \<noteq> None \<longrightarrow>
      Forecast_create fp locf_create uninitialised c =
        and_then (deref (average c)) (\<lambda>a. Inr (map_option Average_Forecast (AverageForecast_create a))))"
  by (simp add: Forecast_create_def deref_def and_then_def)

theorem Forecast_create_average_checks_locf_witness:
  "Forecast_create exact_arithmetic (\<lambda>u :: unit. (None :: unit option)) (\<lambda>_. 0)
     \<lparr>type = AVERAGE, locf = None,
      average = Some \<lparr>average_window = 1, average_states = 6\<rparr>, kalman = None\<rparr> = Inr None
   \<and> Forecast_create exact_arithmetic (\<lambda>u :: unit. (None :: unit option)) (\<lambda>_. 0)
     \<lparr>type = AVERAGE, locf = Some (), average = None, kalman = None\<rparr> = Inl Empty_Optional"
  using Forecast_create_average_checks_locf
          [of "\<lparr>type = AVERAGE, locf = None,
                average = Some \<lparr>average_window = 1, average_states = 6\<rparr>, kalman = None\<rparr>"
              exact_arithmetic "\<lambda>u :: unit. (None :: unit option)" "\<lambda>_. 0"]
        Forecast_create_average_checks_locf
          [of "\<lparr>type = AVERAGE, locf = Some (), average = None, kalman = None\<rparr>"
              exact_arithmetic "\<lambda>u :: unit. (None :: unit option)" "\<lambda>_. 0"]
  by simp

section \<open>The state-transition matrix\<close>

lemma factorial_small:
  "factorial 0 = 1" "factorial (Suc 0) = 1" "factorial 2 = 2"
proof -
  show a: "factorial 0 = 1" and b: "factorial (Suc 0) = 1"
    by (simp_all add: factorial.simps)
  show "factorial 2 = 2"
    by (simp add: factorial.simps [of 2] b UINT_WRAP_def)
qed

lemma upt_small: "[0..<2] = [0, 1]" "[0..<3] = [0, 1, 2]"
  by code_simp+

text \<open>
  Claim C1 says that the matrix built for the Kalman forecaster is the Taylor-integration
  matrix. The function does not build it. For two observed coordinates and order two the
  coefficient of the second derivative in the row of the position is zero where the Taylor
  rule has \<open>\<Delta>\<^sup>2 / 2\<close>: the quotient \<^verbatim>\<open>1 / factorial(i)\<close> is a division of integers. For
  three observed coordinates and order one the rows of the first derivative are computed
  with the order in the place of the number of observed coordinates, so row 1 receives the
  one that belongs to row 3 and the last rows stay zero. For one observed coordinate and
  order two the same row index leaves the matrix.
\<close>

theorem create_euler_state_transition_matrix_not_taylor:
  "(\<exists>M. create_euler_state_transition_matrix (1 / 10) 2 2 = Inr M \<and>
        rows M = 6 \<and> cols M = 6 \<and>
        coeff M (0, 4) = 0 \<and> taylor_coeff (1 / 10) 2 2 (0, 4) = 1 / 200) \<and>
   (\<exists>M. create_euler_state_transition_matrix (1 / 10) 3 1 = Inr M \<and>
        rows M = 6 \<and> cols M = 6 \<and>
        coeff M (1, 3) = 1 \<and> taylor_coeff (1 / 10) 3 1 (1, 3) = 0 \<and>
        coeff M (3, 3) = 0 \<and> taylor_coeff (1 / 10) 3 1 (3, 3) = 1) \<and>
   create_euler_state_transition_matrix (1 / 10) 1 2 = Inl Out_Of_Bounds"
proof (intro conjI)
  have t1: "taylor_coeff (1 / 10) 2 2 (0, 4) = 1 / 200"
    by (simp add: taylor_coeff_def fact_numeral power2_eq_square)
  have "\<exists>M. create_euler_state_transition_matrix (1 / 10) 2 2 = Inr M \<and>
        rows M = 6 \<and> cols M = 6 \<and> coeff M (0, 4) = 0"
    by (simp add: create_euler_state_transition_matrix_def UINT_WRAP_def Let_def mat_zero_def
        assign_def factorial_small upt_small)
  with t1 show "\<exists>M. create_euler_state_transition_matrix (1 / 10) 2 2 = Inr M \<and>
        rows M = 6 \<and> cols M = 6 \<and>
        coeff M (0, 4) = 0 \<and> taylor_coeff (1 / 10) 2 2 (0, 4) = 1 / 200"
    by auto
  have t2: "taylor_coeff (1 / 10) 3 1 (1, 3) = 0" "taylor_coeff (1 / 10) 3 1 (3, 3) = 1"
    by (simp_all add: taylor_coeff_def)
  have "\<exists>M. create_euler_state_transition_matrix (1 / 10) 3 1 = Inr M \<and>
        rows M = 6 \<and> cols M = 6 \<and> coeff M (1, 3) = 1 \<and> coeff M (3, 3) = 0"
    by (simp add: create_euler_state_transition_matrix_def UINT_WRAP_def Let_def mat_zero_def
        assign_def factorial_small upt_small)
  with t2 show "\<exists>M. create_euler_state_transition_matrix (1 / 10) 3 1 = Inr M \<and>
        rows M = 6 \<and> cols M = 6 \<and>
        coeff M (1, 3) = 1 \<and> taylor_coeff (1 / 10) 3 1 (1, 3) = 0 \<and>
        coeff M (3, 3) = 0 \<and> taylor_coeff (1 / 10) 3 1 (3, 3) = 1"
    by auto
  show "create_euler_state_transition_matrix (1 / 10) 1 2 = Inl Out_Of_Bounds"
    by (simp add: create_euler_state_transition_matrix_def UINT_WRAP_def Let_def mat_zero_def
        assign_def factorial_small upt_small)
qed

section \<open>Forecasts of the Kalman forecaster\<close>

lemma col_column:
  assumes "j < cols M"
  shows "col M (int j) = Inr (column M j)"
  using assms by (simp add: col_def column_def)

lemma KalmanForecast_forecast_inside:
  assumes shape: "cols (m_prediction s) = m_steps s + 1"
    and small: "m_steps s < 2 ^ 31"
    and step: "m_time_step s \<noteq> 0"
    and after: "ndebug \<or> m_last_update s \<le> time"
    and before: "time \<le> m_horison s"
    and nonneg: "0 \<le> steps_into_horison fp s time"
    and inside: "nat \<lfloor>steps_into_horison fp s time\<rfloor> < m_steps s"
  shows "KalmanForecast_forecast fp ndebug s time =
           Inr (interpolate (frac (steps_into_horison fp s time))
                  (column (m_prediction s) (nat \<lfloor>steps_into_horison fp s time\<rfloor>))
                  (column (m_prediction s) (nat \<lfloor>steps_into_horison fp s time\<rfloor> + 1)))"
proof -
  define t where "t = steps_into_horison fp s time"
  define k where "k = nat \<lfloor>t\<rfloor>"
  have t0: "0 \<le> t" using nonneg by (simp add: t_def)
  then have fl: "\<lfloor>t\<rfloor> = int k" by (simp add: k_def)
  have kk: "k < m_steps s" using inside by (simp add: k_def t_def)
  have range: "- (2 ^ 31) \<le> int k" "int k < 2 ^ 31" "int k + 1 \<noteq> 2 ^ 31"
    using kk small by simp_all
  have ti: "to_int t = Inr (int k)"
    using t0 fl range by (simp add: to_int_def)
  have c1: "col (m_prediction s) (int k) = Inr (column (m_prediction s) k)"
    using kk shape by (intro col_column) simp
  have c2: "col (m_prediction s) (int k + 1) = Inr (column (m_prediction s) (k + 1))"
    using kk shape col_column [of "k + 1" "m_prediction s"] by (simp add: add.commute)
  have fr: "t - real_of_int (int k) = frac t"
    using fl by (simp add: frac_def)
  have tq: "d_divide fp (d_minus fp time (m_last_update s)) (m_time_step s) = t"
    by (simp add: t_def steps_into_horison_def)
  have "KalmanForecast_forecast fp ndebug s time =
          Inr (interpolate (frac t) (column (m_prediction s) k) (column (m_prediction s) (k + 1)))"
    using step after before ti range(3) c1 c2 fr
    by (auto simp: KalmanForecast_forecast_def and_then_def Let_def tq)
  then show ?thesis by (simp add: t_def k_def)
qed

lemma KalmanForecast_forecast_past:
  assumes shape: "cols (m_prediction s) = m_steps s + 1"
    and "0 \<le> m_last_update s" and "0 \<le> m_horison s"
    and "m_last_update s + m_horison s < time"
  shows "KalmanForecast_forecast fp ndebug s time = Inr (column (m_prediction s) (m_steps s))"
proof -
  have "m_last_update s \<le> time" "m_horison s < time"
    using assms(2-4) by simp_all
  moreover have "col (m_prediction s) (int (m_steps s)) = Inr (column (m_prediction s) (m_steps s))"
    using shape by (intro col_column) simp
  ultimately show ?thesis
    using shape by (simp add: KalmanForecast_forecast_def rightCols1_def)
qed

text \<open>
  Claim C3, as the code has it, for a forecaster whose prediction buffer has \<open>steps + 1\<close>
  columns, with fewer than \<open>2\<^sup>3\<^sup>1\<close> steps. The forecast does not clamp at the lower end: a
  query time before the last update violates the assertion of the function. From the last
  update on, for a query time up to the horizon and a time step other than zero, let \<open>q\<close> be
  the quotient \<open>(t - last_update) / time_step\<close> as the machine computes it; when \<open>q\<close> is not
  negative and its integer part \<open>k\<close> is below the number of steps, the result is the linear
  interpolation between the columns \<open>k\<close> and \<open>k + 1\<close> by the fractional part of \<open>q\<close>, which is
  the clamped forecast when \<open>q\<close> is the exact quotient and the query is within the horizon
  counted from the last update. With a last update and a horizon that are not negative, a
  query past the horizon counted from the last update returns the last prediction.
\<close>

theorem KalmanForecast_forecast_interpolates:
  assumes "cols (m_prediction s) = m_steps s + 1"
    and "m_steps s < 2 ^ 31"
  shows "(time < m_last_update s \<longrightarrow>
            KalmanForecast_forecast fp False s time = Inl Assertion_Failed)
       \<and> (m_time_step s \<noteq> 0 \<and> m_last_update s \<le> time \<and> time \<le> m_horison s \<and>
          0 \<le> steps_into_horison fp s time \<and>
          nat \<lfloor>steps_into_horison fp s time\<rfloor> < m_steps s \<longrightarrow>
            KalmanForecast_forecast fp ndebug s time =
              Inr (interpolate (frac (steps_into_horison fp s time))
                     (column (m_prediction s) (nat \<lfloor>steps_into_horison fp s time\<rfloor>))
                     (column (m_prediction s) (nat \<lfloor>steps_into_horison fp s time\<rfloor> + 1))) \<and>
            (steps_into_horison fp s time = (time - m_last_update s) / m_time_step s \<and>
             time \<le> m_last_update s + m_horison s \<longrightarrow>
               KalmanForecast_forecast fp ndebug s time = Inr (forecast_clamped s time)))
       \<and> (0 \<le> m_last_update s \<and> 0 \<le> m_horison s \<and> m_last_update s + m_horison s < time \<longrightarrow>
            KalmanForecast_forecast fp ndebug s time = Inr (column (m_prediction s) (m_steps s)))"
proof (intro conjI impI)
  assume "time < m_last_update s"
  then show "KalmanForecast_forecast fp False s time = Inl Assertion_Failed"
    by (simp add: KalmanForecast_forecast_def)
next
  assume h: "m_time_step s \<noteq> 0 \<and> m_last_update s \<le> time \<and> time \<le> m_horison s \<and>
          0 \<le> steps_into_horison fp s time \<and>
          nat \<lfloor>steps_into_horison fp s time\<rfloor> < m_steps s"
  then have i: "KalmanForecast_forecast fp ndebug s time =
              Inr (interpolate (frac (steps_into_horison fp s time))
                     (column (m_prediction s) (nat \<lfloor>steps_into_horison fp s time\<rfloor>))
                     (column (m_prediction s) (nat \<lfloor>steps_into_horison fp s time\<rfloor> + 1)))"
    using KalmanForecast_forecast_inside [OF assms, of ndebug time fp] by blast
  then show "KalmanForecast_forecast fp ndebug s time =
              Inr (interpolate (frac (steps_into_horison fp s time))
                     (column (m_prediction s) (nat \<lfloor>steps_into_horison fp s time\<rfloor>))
                     (column (m_prediction s) (nat \<lfloor>steps_into_horison fp s time\<rfloor> + 1)))" .
  assume e: "steps_into_horison fp s time = (time - m_last_update s) / m_time_step s \<and>
             time \<le> m_last_update s + m_horison s"
  with h have "max (m_last_update s) (min (m_last_update s + m_horison s) time) = time"
    by simp
  with h e i show "KalmanForecast_forecast fp ndebug s time = Inr (forecast_clamped s time)"
    by (simp add: forecast_clamped_def Let_def)
next
  assume "0 \<le> m_last_update s \<and> 0 \<le> m_horison s \<and> m_last_update s + m_horison s < time"
  then show "KalmanForecast_forecast fp ndebug s time = Inr (column (m_prediction s) (m_steps s))"
    using KalmanForecast_forecast_past [OF assms(1), of time fp ndebug] by blast
qed

lemma ramp_forecast_fields:
  "m_last_update ramp_forecast = 1" "m_horison ramp_forecast = 10"
  "m_time_step ramp_forecast = 1" "m_steps ramp_forecast = 10"
  "cols (m_prediction ramp_forecast) = 11"
  by (simp_all add: ramp_forecast_def)

lemma floor_three_halves: "\<lfloor>3 / 2 :: real\<rfloor> = 1" "frac (3 / 2 :: real) = 1 / 2"
proof -
  show fl: "\<lfloor>3 / 2 :: real\<rfloor> = 1" by (rule floor_unique) simp_all
  show "frac (3 / 2 :: real) = 1 / 2" by (simp add: frac_def fl)
qed

theorem KalmanForecast_forecast_interpolates_witness:
  "cols (m_prediction ramp_forecast) = m_steps ramp_forecast + 1
   \<and> m_steps ramp_forecast < 2 ^ 31
   \<and> steps_into_horison exact_arithmetic ramp_forecast (5 / 2) = 3 / 2
   \<and> KalmanForecast_forecast exact_arithmetic False ramp_forecast (1 / 2) = Inl Assertion_Failed
   \<and> KalmanForecast_forecast exact_arithmetic True ramp_forecast (5 / 2) = Inr [3 / 2]
   \<and> KalmanForecast_forecast exact_arithmetic True ramp_forecast (5 / 2)
       = Inr (forecast_clamped ramp_forecast (5 / 2))
   \<and> KalmanForecast_forecast exact_arithmetic True ramp_forecast 12 = Inr [10]"
proof -
  note f = ramp_forecast_fields
  have h: "cols (m_prediction ramp_forecast) = m_steps ramp_forecast + 1"
    "m_steps ramp_forecast < 2 ^ 31"
    by (simp_all add: f)
  have q: "steps_into_horison exact_arithmetic ramp_forecast (5 / 2) = 3 / 2"
    by (simp add: steps_into_horison_def exact_arithmetic_def f)
  from KalmanForecast_forecast_interpolates [OF h, of "1 / 2" exact_arithmetic]
  have a: "KalmanForecast_forecast exact_arithmetic False ramp_forecast (1 / 2) = Inl Assertion_Failed"
    by (simp add: f)
  have pre: "m_time_step ramp_forecast \<noteq> 0 \<and> m_last_update ramp_forecast \<le> 5 / 2 \<and>
      5 / 2 \<le> m_horison ramp_forecast \<and>
      0 \<le> steps_into_horison exact_arithmetic ramp_forecast (5 / 2) \<and>
      nat \<lfloor>steps_into_horison exact_arithmetic ramp_forecast (5 / 2)\<rfloor> < m_steps ramp_forecast"
    and pre': "steps_into_horison exact_arithmetic ramp_forecast (5 / 2)
        = (5 / 2 - m_last_update ramp_forecast) / m_time_step ramp_forecast \<and>
      5 / 2 \<le> m_last_update ramp_forecast + m_horison ramp_forecast"
    by (simp_all add: q f floor_three_halves)
  from KalmanForecast_forecast_interpolates [OF h, of "5 / 2" exact_arithmetic True] pre pre'
  have b': "KalmanForecast_forecast exact_arithmetic True ramp_forecast (5 / 2) =
             Inr (forecast_clamped ramp_forecast (5 / 2))"
    by blast
  have "forecast_clamped ramp_forecast (5 / 2) = [3 / 2]"
    by (simp add: forecast_clamped_def ramp_forecast_def Let_def floor_three_halves column_def
        interpolate_def vscale_def)
  with b' have b'': "KalmanForecast_forecast exact_arithmetic True ramp_forecast (5 / 2) = Inr [3 / 2]"
    by simp
  from KalmanForecast_forecast_interpolates [OF h, of 12 exact_arithmetic True]
  have "KalmanForecast_forecast exact_arithmetic True ramp_forecast 12 =
          Inr (column (m_prediction ramp_forecast) 10)"
    by (simp add: f)
  then have c: "KalmanForecast_forecast exact_arithmetic True ramp_forecast 12 = Inr [10]"
    by (simp add: ramp_forecast_def column_def)
  from h q a b'' b' c show ?thesis by blast
qed

text \<open>
  Claim C3 as it is stated fails before the last update. The forecaster's last update was
  at time 1; asked for time 1/2, the clamped forecast is the first prediction, but the
  function stops at its assertion, and without the assertion it extrapolates backwards from
  the first two predictions. The difference and the quotient of this query, \<open>-1/2\<close>, are
  \<^verbatim>\<open>double\<close>s, so the machine computes them exactly.
\<close>

theorem KalmanForecast_forecast_not_clamped:
  "forecast_clamped ramp_forecast (1 / 2) = column (m_prediction ramp_forecast) 0
   \<and> KalmanForecast_forecast exact_arithmetic False ramp_forecast (1 / 2) = Inl Assertion_Failed
   \<and> KalmanForecast_forecast exact_arithmetic True ramp_forecast (1 / 2) = Inr [- 1 / 2]
   \<and> column (m_prediction ramp_forecast) 0 = [0]
   \<and> KalmanForecast_forecast exact_arithmetic False ramp_forecast (1 / 2)
       \<noteq> Inr (forecast_clamped ramp_forecast (1 / 2))
   \<and> KalmanForecast_forecast exact_arithmetic True ramp_forecast (1 / 2)
       \<noteq> Inr (forecast_clamped ramp_forecast (1 / 2))"
proof -
  have ce: "\<lceil>- (1 / 2 :: real)\<rceil> = 0" by (rule ceiling_unique) simp_all
  have c0: "column (m_prediction ramp_forecast) 0 = [0]"
    by (simp add: ramp_forecast_def column_def)
  have sp: "forecast_clamped ramp_forecast (1 / 2) = column (m_prediction ramp_forecast) 0"
    by (simp add: forecast_clamped_def ramp_forecast_def column_def Let_def interpolate_def
        vscale_def)
  have a: "KalmanForecast_forecast exact_arithmetic False ramp_forecast (1 / 2) = Inl Assertion_Failed"
    by (simp add: KalmanForecast_forecast_def ramp_forecast_def)
  have b: "KalmanForecast_forecast exact_arithmetic True ramp_forecast (1 / 2) = Inr [- 1 / 2]"
    by (simp add: ce KalmanForecast_forecast_def ramp_forecast_def exact_arithmetic_def
        to_int_def and_then_def col_def Let_def interpolate_def vscale_def)
  from sp a b c0 show ?thesis by simp
qed

text \<open>
  Two defects at the upper end, which the theorem above leaves out. The function compares
  the query time with the length of the horizon, not with the last update plus the horizon:
  after a last update at time 20, later than the horizon of 10, a query at 20.5 is half a
  step into the horizon and the clamped forecast lies between the first two predictions,
  but the function returns the last prediction, as it then does for every query, against its
  comment ``if predicting past the horison''. And a query at the very end of the horizon is
  not past it: with the last update at time 0, a query at time 10 takes column 11 of the 11
  columns as the upper one, where the clamped forecast is the last prediction.
\<close>

theorem KalmanForecast_forecast_horizon_defects:
  "m_last_update late_forecast \<le> 41 / 2
   \<and> 41 / 2 \<le> m_last_update late_forecast + m_horison late_forecast
   \<and> forecast_clamped late_forecast (41 / 2) = [1 / 2]
   \<and> KalmanForecast_forecast exact_arithmetic False late_forecast (41 / 2) = Inr [10]
   \<and> KalmanForecast_forecast exact_arithmetic True late_forecast (41 / 2) = Inr [10]
   \<and> forecast_clamped fresh_forecast 10 = [10]
   \<and> KalmanForecast_forecast exact_arithmetic False fresh_forecast 10 = Inl Out_Of_Bounds
   \<and> KalmanForecast_forecast exact_arithmetic True fresh_forecast 10 = Inl Out_Of_Bounds"
proof -
  have fl: "\<lfloor>1 / 2 :: real\<rfloor> = 0" by (rule floor_unique) simp_all
  have fr: "frac (1 / 2 :: real) = 1 / 2" by (simp add: frac_def fl)
  have a: "m_last_update late_forecast \<le> 41 / 2"
    "41 / 2 \<le> m_last_update late_forecast + m_horison late_forecast"
    by (simp_all add: late_forecast_def ramp_forecast_def)
  have b: "forecast_clamped late_forecast (41 / 2) = [1 / 2]"
    by (simp add: forecast_clamped_def late_forecast_def ramp_forecast_def Let_def fl fr
        column_def interpolate_def vscale_def)
  have c: "KalmanForecast_forecast exact_arithmetic ndebug late_forecast (41 / 2) = Inr [10]"
    for ndebug
    by (simp add: KalmanForecast_forecast_def late_forecast_def ramp_forecast_def
        rightCols1_def col_def)
  have d: "forecast_clamped fresh_forecast 10 = [10]"
    by (simp add: forecast_clamped_def fresh_forecast_def ramp_forecast_def Let_def column_def)
  have e: "KalmanForecast_forecast exact_arithmetic ndebug fresh_forecast 10 = Inl Out_Of_Bounds"
    for ndebug
    by (simp add: KalmanForecast_forecast_def fresh_forecast_def ramp_forecast_def
        exact_arithmetic_def to_int_def and_then_def col_def Let_def)
  from a b c d e show ?thesis by simp
qed

section \<open>The reach cost\<close>

lemma get_cost_reach_zero:
  assumes "m_reach_cost obj = 0"
  shows "fst (get_cost determinant obj state control d time) =
           (if enable_minimise_power (m_configuration obj) then power_cost obj d
            else m_power_cost obj)
         + (if enable_maximise_manipulability (m_configuration obj)
            then fst (manipulability_cost determinant
                        (if enable_minimise_power (m_configuration obj)
                         then obj\<lparr>m_power_cost := power_cost obj d\<rparr> else obj) d)
            else m_manipulability_cost obj)
         + (if enable_joint_limit (m_configuration obj)
            then joint_limit_cost obj state else m_joint_cost obj)"
    and "m_reach_cost (snd (get_cost determinant obj state control d time)) = 0"
  using assms
  by (simp_all add: get_cost_def Let_def reach_cost_def manipulability_cost_def
      joint_limit_cost_def split: prod.splits)

text \<open>
  Claim C8. \<^verbatim>\<open>reach_cost\<close> returns 0 for every state of the dynamics. The member that
  holds the reach cost is 0 after construction and stays 0 through every call of
  \<^verbatim>\<open>get_cost\<close>, so the cost that \<^verbatim>\<open>get_cost\<close> returns is the same with the reach
  limit enabled as with it disabled.
\<close>

theorem reach_cost_is_zero:
  "reach_cost obj d = 0
   \<and> m_reach_cost (AssistedManipulation uninitialised_jacobian uninitialised_cost configuration) = 0
   \<and> (m_reach_cost obj = 0 \<longrightarrow>
        m_reach_cost (snd (get_cost determinant obj state control d time)) = 0 \<and>
        fst (get_cost determinant (with_reach_limit True obj) state control d time) =
        fst (get_cost determinant (with_reach_limit False obj) state control d time))"
proof (intro conjI impI)
  show "reach_cost obj d = 0"
    by (simp add: reach_cost_def Let_def)
  show "m_reach_cost (AssistedManipulation uninitialised_jacobian uninitialised_cost configuration) = 0"
    by (simp add: AssistedManipulation_def)
next
  assume z: "m_reach_cost obj = 0"
  then show "m_reach_cost (snd (get_cost determinant obj state control d time)) = 0"
    by (rule get_cost_reach_zero(2))
  have t: "m_reach_cost (with_reach_limit True obj) = 0"
    and f: "m_reach_cost (with_reach_limit False obj) = 0"
    using z by (simp_all add: with_reach_limit_def)
  show "fst (get_cost determinant (with_reach_limit True obj) state control d time) =
        fst (get_cost determinant (with_reach_limit False obj) state control d time)"
    unfolding get_cost_reach_zero(1) [OF t] get_cost_reach_zero(1) [OF f]
    by (simp add: with_reach_limit_def power_cost_def manipulability_cost_def
        joint_limit_cost_def Let_def)
qed

theorem reach_cost_is_zero_witness:
  "m_reach_cost reach_only = 0
   \<and> norm3 (get_frame_offset folded_arm BASE_LINK_JOINT PANDA_GRASP_JOINT)
       < limit (minimum_reach (m_configuration reach_only))
   \<and> reach_cost reach_only folded_arm = 0
   \<and> fst (get_cost (\<lambda>_. 1) (with_reach_limit True reach_only) \<lparr>position = (\<lambda>_. 0)\<rparr> []
           folded_arm 0)
     = fst (get_cost (\<lambda>_. 1) (with_reach_limit False reach_only) \<lparr>position = (\<lambda>_. 0)\<rparr> []
           folded_arm 0)"
proof -
  have z: "m_reach_cost reach_only = 0"
    by (simp add: reach_only_def AssistedManipulation_def)
  have o: "norm3 (get_frame_offset folded_arm BASE_LINK_JOINT PANDA_GRASP_JOINT)
       < limit (minimum_reach (m_configuration reach_only))"
    by (simp add: reach_only_def AssistedManipulation_def folded_arm_def norm3_def
        get_frame_offset_def)
  from reach_cost_is_zero [of reach_only folded_arm "\<lambda>_. 0" 0 "m_configuration reach_only"
      "\<lambda>_. 1" "\<lparr>position = (\<lambda>_. 0)\<rparr>" "[]" 0] z o
  show ?thesis by blast
qed

section \<open>The weight law\<close>

lemma finite_costs_empty_iff: "finite_costs costs = [] \<longleftrightarrow> (\<forall>c \<in> set costs. c = Non_Finite)"
  by (induction costs rule: finite_costs.induct) auto

lemma J_min_is_least:
  assumes "finite_costs costs \<noteq> []"
  shows "J_min costs \<in> set (finite_costs costs)" and "\<forall>j \<in> set (finite_costs costs). J_min costs \<le> j"
proof -
  obtain j rest where c: "finite_costs costs = j # rest"
    using assms by (cases "finite_costs costs") auto
  have m: "J_min costs = Min (set (j # rest))"
    unfolding Min.set_eq_fold by (simp add: J_min_def c)
  show "J_min costs \<in> set (finite_costs costs)"
    unfolding m c by (rule Min_in) simp_all
  show "\<forall>j \<in> set (finite_costs costs). J_min costs \<le> j"
    unfolding m c by (intro ballI Min_le) simp_all
qed

lemma likelihood_nonneg: "0 \<le> likelihood cost_scale j_min c"
  by (cases c) (simp_all add: likelihood_def)

lemma unnormalised_nonneg: "\<forall>w \<in> set (unnormalised_weights cost_scale costs). 0 \<le> w"
  by (auto simp: unnormalised_weights_def likelihood_nonneg)

lemma unnormalised_sum_zero_iff:
  "sum_list (unnormalised_weights cost_scale costs) = 0 \<longleftrightarrow> finite_costs costs = []"
proof -
  have "sum_list (unnormalised_weights cost_scale costs) = 0 \<longleftrightarrow>
          (\<forall>w \<in> set (unnormalised_weights cost_scale costs). w = 0)"
    using unnormalised_nonneg by (intro sum_list_nonneg_eq_0_iff) auto
  also have "\<dots> \<longleftrightarrow> (\<forall>c \<in> set costs. likelihood cost_scale (J_min costs) c = 0)"
    by (simp add: unnormalised_weights_def)
  also have "\<dots> \<longleftrightarrow> (\<forall>c \<in> set costs. c = Non_Finite)"
  proof (intro ball_cong refl)
    fix c
    show "likelihood cost_scale (J_min costs) c = 0 \<longleftrightarrow> c = Non_Finite"
      by (cases c) (simp_all add: likelihood_def)
  qed
  finally show ?thesis by (simp add: finite_costs_empty_iff)
qed

lemma sum_list_divide_const: "(\<Sum>x \<leftarrow> xs. x / c) = sum_list xs / (c :: real)"
  by (induction xs) (simp_all add: add_divide_distrib)

lemma unnormalised_sum:
  "sum_list (map (likelihood cost_scale m) costs)
     = (\<Sum>j \<leftarrow> finite_costs costs. exp (- (j - m) / cost_scale))"
  by (induction costs rule: finite_costs.induct) (simp_all add: likelihood_def)

text \<open>
  Claim C2. For a positive cost scale, the weight of a rollout after the weighting step is
  its weight before normalisation divided by the sum of those weights, where the weight
  before normalisation is \<open>exp (- (J - J_min) / cost_scale)\<close> for a finite cost \<open>J\<close> and 0
  otherwise, with \<open>J_min\<close> the least finite cost. So the weights are all nonnegative and
  sum to 1 as soon as one rollout has a finite cost, and are all zero when no rollout has
  one.
\<close>

theorem rollout_weight_law:
  assumes "0 < cost_scale"
  shows "length (optimise_weights cost_scale costs) = length costs
       \<and> (finite_costs costs \<noteq> [] \<longrightarrow>
            (\<forall>w \<in> set (optimise_weights cost_scale costs). 0 \<le> w) \<and>
            sum_list (optimise_weights cost_scale costs) = 1 \<and>
            J_min costs \<in> set (finite_costs costs) \<and>
            (\<forall>j \<in> set (finite_costs costs). J_min costs \<le> j) \<and>
            (\<forall>r < length costs.
               optimise_weights cost_scale costs ! r =
                 unnormalised_weights cost_scale costs ! r
                   / sum_list (unnormalised_weights cost_scale costs) \<and>
               optimise_weights cost_scale costs ! r =
                 (case costs ! r of
                    Finite j \<Rightarrow>
                      exp (- (j - J_min costs) / cost_scale)
                        / (\<Sum>j' \<leftarrow> finite_costs costs. exp (- (j' - J_min costs) / cost_scale))
                  | Non_Finite \<Rightarrow> 0)))
       \<and> (finite_costs costs = [] \<longrightarrow>
            (\<forall>w \<in> set (optimise_weights cost_scale costs). w = 0))
       \<and> (\<forall>r < length costs.
            unnormalised_weights cost_scale costs ! r =
              (case costs ! r of
                 Finite j \<Rightarrow> exp (- (j - J_min costs) / cost_scale)
               | Non_Finite \<Rightarrow> 0))"
proof (intro conjI impI)
  let ?w = "unnormalised_weights cost_scale costs"
  show "length (optimise_weights cost_scale costs) = length costs"
    by (simp add: optimise_weights_def Let_def unnormalised_weights_def)
  show un: "\<forall>r < length costs. ?w ! r =
          (case costs ! r of
             Finite j \<Rightarrow> exp (- (j - J_min costs) / cost_scale)
           | Non_Finite \<Rightarrow> 0)"
    by (simp add: unnormalised_weights_def likelihood_def)
  {
    assume ne: "finite_costs costs \<noteq> []"
    then have s0: "sum_list ?w \<noteq> 0" by (simp add: unnormalised_sum_zero_iff)
    have "0 \<le> sum_list ?w"
      using unnormalised_nonneg by (intro sum_list_nonneg) auto
    with s0 have sp: "0 < sum_list ?w" by simp
    have ow: "optimise_weights cost_scale costs = map (\<lambda>x. x / sum_list ?w) ?w"
      using s0 by (simp add: optimise_weights_def Let_def)
    show "\<forall>w \<in> set (optimise_weights cost_scale costs). 0 \<le> w"
      using unnormalised_nonneg [of cost_scale costs] sp by (auto simp: ow)
    show "sum_list (optimise_weights cost_scale costs) = 1"
      using s0 by (simp add: ow sum_list_divide_const)
    show "J_min costs \<in> set (finite_costs costs)"
      "\<forall>j \<in> set (finite_costs costs). J_min costs \<le> j"
      using J_min_is_least [OF ne] by simp_all
    have sw: "sum_list ?w
        = (\<Sum>j' \<leftarrow> finite_costs costs. exp (- (j' - J_min costs) / cost_scale))"
      by (simp add: unnormalised_weights_def unnormalised_sum)
    have lw: "length ?w = length costs" by (simp add: unnormalised_weights_def)
    show "\<forall>r < length costs.
            optimise_weights cost_scale costs ! r = ?w ! r / sum_list ?w \<and>
            optimise_weights cost_scale costs ! r =
              (case costs ! r of
                 Finite j \<Rightarrow>
                   exp (- (j - J_min costs) / cost_scale)
                     / (\<Sum>j' \<leftarrow> finite_costs costs. exp (- (j' - J_min costs) / cost_scale))
               | Non_Finite \<Rightarrow> 0)"
    proof (intro allI impI)
      fix r assume r: "r < length costs"
      have d: "optimise_weights cost_scale costs ! r = ?w ! r / sum_list ?w"
        using r lw by (simp add: ow)
      have "?w ! r / sum_list ?w =
              (case costs ! r of
                 Finite j \<Rightarrow>
                   exp (- (j - J_min costs) / cost_scale)
                     / (\<Sum>j' \<leftarrow> finite_costs costs. exp (- (j' - J_min costs) / cost_scale))
               | Non_Finite \<Rightarrow> 0)"
        using un r by (simp add: sw split: cost.splits)
      with d show "optimise_weights cost_scale costs ! r = ?w ! r / sum_list ?w \<and>
            optimise_weights cost_scale costs ! r =
              (case costs ! r of
                 Finite j \<Rightarrow>
                   exp (- (j - J_min costs) / cost_scale)
                     / (\<Sum>j' \<leftarrow> finite_costs costs. exp (- (j' - J_min costs) / cost_scale))
               | Non_Finite \<Rightarrow> 0)"
        by simp
    qed
  }
  {
    assume e: "finite_costs costs = []"
    then have "sum_list ?w = 0" by (simp add: unnormalised_sum_zero_iff)
    moreover have "\<forall>c \<in> set costs. c = Non_Finite"
      using e by (simp add: finite_costs_empty_iff)
    ultimately show "\<forall>w \<in> set (optimise_weights cost_scale costs). w = 0"
      by (auto simp: optimise_weights_def Let_def)
  }
qed

lemma exp_minus_ln_two: "exp (- ln 2) = (1 / 2 :: real)"
  by (simp add: exp_minus)

theorem rollout_weight_law_witness:
  "(0 :: real) < 10
   \<and> finite_costs [Finite 3, Non_Finite, Finite (3 + 10 * ln 2)] \<noteq> []
   \<and> J_min [Finite 3, Non_Finite, Finite (3 + 10 * ln 2)] = 3
   \<and> unnormalised_weights 10 [Finite 3, Non_Finite, Finite (3 + 10 * ln 2)] = [1, 0, 1 / 2]
   \<and> optimise_weights 10 [Finite 3, Non_Finite, Finite (3 + 10 * ln 2)] = [2 / 3, 0, 1 / 3]
   \<and> sum_list (optimise_weights 10 [Finite 3, Non_Finite, Finite (3 + 10 * ln 2)]) = 1
   \<and> finite_costs [Non_Finite, Non_Finite] = []
   \<and> optimise_weights 10 [Non_Finite, Non_Finite] = [0, 0]"
proof -
  let ?costs = "[Finite 3, Non_Finite, Finite (3 + 10 * ln 2)]"
  have p: "(0 :: real) < 10" by simp
  have a: "finite_costs ?costs \<noteq> []"
    and b: "finite_costs [Non_Finite, Non_Finite] = []"
    by simp_all
  have m: "J_min ?costs = 3"
    by (simp add: J_min_def)
  have u: "unnormalised_weights 10 ?costs = [1, 0, 1 / 2]"
    by (simp add: unnormalised_weights_def likelihood_def m exp_minus_ln_two)
  note law = rollout_weight_law [OF p, of ?costs]
  from law a have c: "sum_list (optimise_weights 10 ?costs) = 1"
    by blast
  from law a have each: "\<forall>r < length ?costs.
      optimise_weights 10 ?costs ! r
        = unnormalised_weights 10 ?costs ! r / sum_list (unnormalised_weights 10 ?costs)"
    by blast
  have len: "length (optimise_weights 10 ?costs) = 3"
    using law by simp
  have "optimise_weights 10 ?costs ! 0 = 2 / 3" "optimise_weights 10 ?costs ! Suc 0 = 0"
    "optimise_weights 10 ?costs ! Suc (Suc 0) = 1 / 3"
    using each [rule_format, of 0] each [rule_format, of "Suc 0"]
      each [rule_format, of "Suc (Suc 0)"]
    by (simp_all add: u)
  then have d: "optimise_weights 10 ?costs = [2 / 3, 0, 1 / 3]"
    using len by (intro nth_equalityI) (auto simp: less_Suc_eq numeral_3_eq_3)
  have "\<forall>w \<in> set (optimise_weights 10 [Non_Finite, Non_Finite]). w = 0"
    using rollout_weight_law [OF p, of "[Non_Finite, Non_Finite]"] b by blast
  moreover have "length (optimise_weights 10 [Non_Finite, Non_Finite]) = 2"
    using rollout_weight_law [OF p, of "[Non_Finite, Non_Finite]"] by simp
  ultimately have e: "optimise_weights 10 [Non_Finite, Non_Finite] = [0, 0]"
    by (auto simp: length_Suc_conv numeral_2_eq_2)
  from p a m u d c b e show ?thesis by blast
qed

section \<open>Draws of the Gaussian sampler\<close>

lemma sum_list_delta:
  assumes "k < m"
  shows "(\<Sum>l \<leftarrow> [0..<m]. f l * (if l = k then c l else 0)) = f k * (c k :: real)"
proof -
  have "(\<Sum>l \<leftarrow> [0..<m]. f l * (if l = k then c l else 0))
          = (\<Sum>l \<in> {0..<m}. f l * (if l = k then c l else 0))"
    by (simp add: interv_sum_list_conv_sum_set_nat)
  also have "\<dots> = (\<Sum>l \<in> {0..<m}. if l = k then f l * c l else 0)"
    by (intro sum.cong) auto
  also have "\<dots> = f k * c k"
    using assms by (simp add: sum.delta)
  finally show ?thesis .
qed

lemma transform_coefficients:
  assumes "rows covariance = m" and "cols covariance = m"
    and "solver covariance = (V, ev)" and "decomposes covariance V ev"
  shows "\<exists>T. set_covariance solver covariance g = Inr (g\<lparr>m_transform := T\<rparr>) \<and>
           rows T = m \<and> cols T = m \<and>
           (\<forall>i < m. \<forall>k < m. coeff T (i, k) = coeff V (i, k) * sqrt (ev ! k))"
proof -
  have d: "rows V = m" "cols V = m" "length ev = m" "\<forall>k < m. 0 \<le> ev ! k"
    using assms(1,4) by (simp_all add: decomposes_def)
  have "\<not> (\<exists>x \<in> set ev. x < 0)"
    using d(3,4) by (auto simp: in_set_conv_nth not_less)
  then have r: "cwiseSqrt ev = Inr (map sqrt ev)" by (simp add: cwiseSqrt_def)
  let ?T = "\<lparr>rows = rows V, cols = cols (asDiagonal (map sqrt ev)),
             coeff = (\<lambda>(i, j). \<Sum>k \<leftarrow> [0..<cols V].
                        coeff V (i, k) * coeff (asDiagonal (map sqrt ev)) (k, j))\<rparr>"
  have mm: "mat_mul V (asDiagonal (map sqrt ev)) = Inr ?T"
    using d by (simp add: mat_mul_def asDiagonal_def)
  have sc: "set_covariance solver covariance g = Inr (g\<lparr>m_transform := ?T\<rparr>)"
    using assms(1-3) r mm by (simp add: set_covariance_def and_then_def)
  have "coeff ?T (i, k) = coeff V (i, k) * sqrt (ev ! k)" if "i < m" "k < m" for i k
  proof -
    have "coeff ?T (i, k) = (\<Sum>l \<leftarrow> [0..<m]. coeff V (i, l) * (if l = k then map sqrt ev ! l else 0))"
      using d by (simp add: asDiagonal_def)
    also have "\<dots> = coeff V (i, k) * (map sqrt ev ! k)"
      using that(2) by (rule sum_list_delta)
    finally show ?thesis using that(2) d(3) by simp
  qed
  moreover have "rows ?T = m" "cols ?T = m"
    using d by (simp_all add: asDiagonal_def)
  ultimately show ?thesis using sc by blast
qed

lemma transform_gram:
  assumes d: "decomposes covariance V ev" and m: "rows covariance = m"
    and t: "\<forall>i < m. \<forall>k < m. coeff T (i, k) = coeff V (i, k) * sqrt (ev ! k)"
    and "i < m" and "j < m"
  shows "(\<Sum>k \<leftarrow> [0..<m]. coeff T (i, k) * coeff T (j, k)) = coeff covariance (i, j)"
proof -
  have nn: "\<forall>k < m. 0 \<le> ev ! k"
    using d m by (simp add: decomposes_def)
  have a: "(\<Sum>k \<leftarrow> [0..<m]. coeff T (i, k) * coeff T (j, k))
          = (\<Sum>k \<leftarrow> [0..<m]. coeff V (i, k) * ev ! k * coeff V (j, k))"
  proof (rule arg_cong [where f = sum_list], rule map_cong [OF refl])
    fix k assume "k \<in> set [0..<m]"
    then have k: "k < m" by simp
    have "sqrt (ev ! k) * sqrt (ev ! k) = ev ! k"
      using nn k by simp
    then have "coeff V (i, k) * sqrt (ev ! k) * (coeff V (j, k) * sqrt (ev ! k))
                 = coeff V (i, k) * ev ! k * coeff V (j, k)"
      by (simp add: algebra_simps)
    then show "coeff T (i, k) * coeff T (j, k) = coeff V (i, k) * ev ! k * coeff V (j, k)"
      using t k assms(4,5) by simp
  qed
  have b: "coeff covariance (i, j)
          = (\<Sum>k \<leftarrow> [0..<m]. coeff V (i, k) * ev ! k * coeff V (j, k))"
    using d m assms(4,5) by (simp add: decomposes_def)
  from a b show ?thesis by (simp only:)
qed

lemma zero_covariance_transform:
  assumes d: "decomposes covariance V ev" and m: "rows covariance = m"
    and t: "\<forall>i < m. \<forall>k < m. coeff T (i, k) = coeff V (i, k) * sqrt (ev ! k)"
    and z: "\<forall>i < m. \<forall>j < m. coeff covariance (i, j) = 0"
    and "i < m" and "k < m"
  shows "coeff T (i, k) = 0"
proof -
  have nn: "\<forall>k < m. 0 \<le> ev ! k"
    using d m by (simp add: decomposes_def)
  let ?terms = "map (\<lambda>k. coeff V (i, k) * ev ! k * coeff V (i, k)) [0..<m]"
  have "sum_list ?terms = coeff covariance (i, i)"
    using d m assms(5) by (simp add: decomposes_def)
  then have s0: "sum_list ?terms = 0" using z assms(5) by simp
  have nonneg: "0 \<le> x" if "x \<in> set ?terms" for x
  proof -
    from that obtain l where l: "l < m" "x = coeff V (i, l) * ev ! l * coeff V (i, l)"
      by auto
    have "x = ev ! l * (coeff V (i, l) * coeff V (i, l))"
      using l(2) by (simp add: algebra_simps)
    then show ?thesis using nn l(1) by simp
  qed
  have "sum_list ?terms = 0 \<longleftrightarrow> (\<forall>x \<in> set ?terms. x = 0)"
    by (rule sum_list_nonneg_eq_0_iff) (rule nonneg)
  with s0 have all0: "\<forall>x \<in> set ?terms. x = 0" by blast
  have "coeff V (i, k) * ev ! k * coeff V (i, k) \<in> set ?terms"
    using assms(6) by auto
  with all0 have "coeff V (i, k) * ev ! k * coeff V (i, k) = 0"
    by blast
  then have "coeff V (i, k) = 0 \<or> ev ! k = 0" by auto
  then have "coeff V (i, k) * sqrt (ev ! k) = 0" by auto
  then show ?thesis using t assms(5,6) by simp
qed

lemma sample_value:
  assumes "rows (m_transform g) = m" and "cols (m_transform g) = m" and "length (m_mean g) = m"
  shows "\<exists>x. sample g normal = Inr x \<and> length x = m \<and>
           (\<forall>i < m. x ! i = m_mean g ! i +
              (\<Sum>k \<leftarrow> [0..<m]. coeff (m_transform g) (i, k) * normal k))"
proof -
  let ?z = "map normal [0..<m]"
  let ?y = "map (\<lambda>i. \<Sum>k \<leftarrow> [0..<m]. coeff (m_transform g) (i, k) * ?z ! k) [0..<m]"
  have mv: "mat_vec (m_transform g) ?z = Inr ?y"
    using assms by (simp add: mat_vec_def)
  have yi: "?y ! i = (\<Sum>k \<leftarrow> [0..<m]. coeff (m_transform g) (i, k) * normal k)" if "i < m" for i
  proof -
    have se: "(\<Sum>k \<leftarrow> [0..<m]. coeff (m_transform g) (i, k) * ?z ! k)
            = (\<Sum>k \<leftarrow> [0..<m]. coeff (m_transform g) (i, k) * normal k)"
      by (rule arg_cong [where f = sum_list], rule map_cong [OF refl]) simp
    have "?y ! i = (\<Sum>k \<leftarrow> [0..<m]. coeff (m_transform g) (i, k) * ?z ! k)"
      using that by (simp del: nth_map_upt)
    with se show ?thesis by (simp only:)
  qed
  have sa: "sample g normal = Inr (map2 (+) (m_mean g) ?y)"
    using assms(3) mv by (simp add: sample_def and_then_def vadd_def Let_def)
  have "\<forall>i < m. map2 (+) (m_mean g) ?y ! i = m_mean g ! i +
          (\<Sum>k \<leftarrow> [0..<m]. coeff (m_transform g) (i, k) * normal k)"
  proof (intro allI impI)
    fix i assume i: "i < m"
    then have "map2 (+) (m_mean g) ?y ! i = m_mean g ! i + ?y ! i"
      using assms(3) by simp
    with yi [OF i] show "map2 (+) (m_mean g) ?y ! i = m_mean g ! i +
          (\<Sum>k \<leftarrow> [0..<m]. coeff (m_transform g) (i, k) * normal k)"
      by simp
  qed
  moreover have "length (map2 (+) (m_mean g) ?y) = m"
    using assms(3) by simp
  ultimately show ?thesis using sa by blast
qed

text \<open>
  Claim C5. Given the decomposition \<open>\<Sigma> = V \<Lambda> V\<^sup>T\<close> that the solver returns for a square
  covariance, with no negative eigenvalue, the constructor succeeds and stores the
  transform \<open>T = V \<Lambda>\<^sup>1\<^sup>/\<^sup>2\<close>, for which \<open>T T\<^sup>T = \<Sigma>\<close>; a draw is \<open>mean + T z\<close>, where \<open>z\<close> holds
  the values taken from the generator; and when \<open>\<Sigma>\<close> is zero the draw is the mean.
\<close>

theorem gaussian_draw:
  assumes "rows covariance = m" and "cols covariance = m" and "length mean = m"
    and "solver covariance = (V, ev)" and "decomposes covariance V ev"
  shows "\<exists>g. Gaussian solver mean covariance = Inr g \<and> m_mean g = mean \<and>
           rows (m_transform g) = m \<and> cols (m_transform g) = m \<and>
           (\<forall>i < m. \<forall>k < m. coeff (m_transform g) (i, k) = coeff V (i, k) * sqrt (ev ! k)) \<and>
           (\<forall>i < m. \<forall>j < m.
              (\<Sum>k \<leftarrow> [0..<m]. coeff (m_transform g) (i, k) * coeff (m_transform g) (j, k))
                = coeff covariance (i, j)) \<and>
           (\<exists>x. sample g normal = Inr x \<and> length x = m \<and>
              (\<forall>i < m. x ! i = mean ! i +
                 (\<Sum>k \<leftarrow> [0..<m]. coeff (m_transform g) (i, k) * normal k))) \<and>
           ((\<forall>i < m. \<forall>j < m. coeff covariance (i, j) = 0) \<longrightarrow> sample g normal = Inr mean)"
proof -
  let ?g0 = "\<lparr>m_mean = mean, m_transform = mat_zero 0 0\<rparr>"
  from transform_coefficients
         [where solver = solver and covariance = covariance and g = ?g0, OF assms(1,2,4,5)]
  obtain T where
    T: "set_covariance solver covariance ?g0 = Inr (?g0\<lparr>m_transform := T\<rparr>)"
       "rows T = m" "cols T = m"
       "\<forall>i < m. \<forall>k < m. coeff T (i, k) = coeff V (i, k) * sqrt (ev ! k)"
    by blast
  let ?g = "?g0\<lparr>m_transform := T\<rparr>"
  have c: "Gaussian solver mean covariance = Inr ?g"
    using T(1) by (simp add: Gaussian_def)
  have gram: "\<forall>i < m. \<forall>j < m.
      (\<Sum>k \<leftarrow> [0..<m]. coeff T (i, k) * coeff T (j, k)) = coeff covariance (i, j)"
    using transform_gram [OF assms(5,1) T(4)] by blast
  have "rows (m_transform ?g) = m" "cols (m_transform ?g) = m" "length (m_mean ?g) = m"
    using T(2,3) assms(3) by simp_all
  from sample_value [OF this, of normal] obtain x where
    x: "sample ?g normal = Inr x" "length x = m"
       "\<forall>i < m. x ! i = mean ! i + (\<Sum>k \<leftarrow> [0..<m]. coeff T (i, k) * normal k)"
    by auto
  have zero: "sample ?g normal = Inr mean"
    if z: "\<forall>i < m. \<forall>j < m. coeff covariance (i, j) = 0"
  proof -
    have "x ! i = mean ! i" if i: "i < m" for i
    proof -
      have "(\<Sum>k \<leftarrow> [0..<m]. coeff T (i, k) * normal k) = (\<Sum>k \<leftarrow> [0..<m]. 0)"
      proof (rule arg_cong [where f = sum_list], rule map_cong [OF refl])
        fix k assume "k \<in> set [0..<m]"
        then have "k < m" by simp
        from zero_covariance_transform [OF assms(5,1) T(4) z i this]
        show "coeff T (i, k) * normal k = 0" by simp
      qed
      also have "\<dots> = 0" by simp
      finally have "(\<Sum>k \<leftarrow> [0..<m]. coeff T (i, k) * normal k) = 0" .
      with x(3) i show ?thesis by simp
    qed
    then have "x = mean"
      using x(2) assms(3) by (intro nth_equalityI) simp_all
    with x(1) show ?thesis by simp
  qed
  have "\<exists>x. sample ?g normal = Inr x \<and> length x = m \<and>
          (\<forall>i < m. x ! i = mean ! i +
             (\<Sum>k \<leftarrow> [0..<m]. coeff (m_transform ?g) (i, k) * normal k))"
    using x by auto
  with c T(2-4) gram zero show ?thesis by auto
qed

lemma all_less_two: "(\<forall>i < (2 :: nat). P i) \<longleftrightarrow> P 0 \<and> P 1"
  by (auto simp: numeral_2_eq_2 less_Suc_eq)

theorem gaussian_draw_witness:
  "decomposes first_axis (mat_identity 2 2) [1, 0]
   \<and> (\<exists>g. Gaussian first_axis_solver [1, 2] first_axis = Inr g \<and>
          sample g (\<lambda>_. 3) = Inr [4, 2])
   \<and> decomposes (mat_zero 2 2) (mat_identity 2 2) [0, 0]
   \<and> (\<exists>g. Gaussian zero_solver [1, 2] (mat_zero 2 2) = Inr g \<and>
          sample g (\<lambda>_. 3) = Inr [1, 2])"
proof -
  have u: "[0..<2] = [0, 1]" by (rule upt_small(1))
  have d1: "decomposes first_axis (mat_identity 2 2) [1, 0]"
    by (simp add: decomposes_def first_axis_def mat_identity_def all_less_two u)
  have d0: "decomposes (mat_zero 2 2) (mat_identity 2 2) [0, 0]"
    by (simp add: decomposes_def mat_zero_def mat_identity_def all_less_two u)
  have s1: "first_axis_solver first_axis = (mat_identity 2 2, [1, 0])"
    by (simp add: first_axis_solver_def)
  have s0: "zero_solver (mat_zero 2 2) = (mat_identity 2 2, [0, 0])"
    by (simp add: zero_solver_def)
  have sh1: "rows first_axis = 2" "cols first_axis = 2"
    by (simp_all add: first_axis_def)
  have sh0: "rows (mat_zero 2 2) = 2" "cols (mat_zero 2 2) = 2"
    by (simp_all add: mat_zero_def)
  have len: "length [1, 2 :: real] = 2" by simp
  from gaussian_draw [where solver = first_axis_solver and normal = "\<lambda>_. 3",
         OF sh1 len s1 d1]
  obtain g x where
    g: "Gaussian first_axis_solver [1, 2] first_axis = Inr g"
      "\<forall>i < 2. \<forall>k < 2. coeff (m_transform g) (i, k) = coeff (mat_identity 2 2) (i, k) * sqrt ([1, 0] ! k)"
      "sample g (\<lambda>_. 3) = Inr x" "length x = 2"
      "\<forall>i < 2. x ! i = [1, 2] ! i + (\<Sum>k \<leftarrow> [0..<2]. coeff (m_transform g) (i, k) * 3)"
    by blast
  have t: "coeff (m_transform g) (0, 0) = 1" "coeff (m_transform g) (0, Suc 0) = 0"
    "coeff (m_transform g) (Suc 0, 0) = 0" "coeff (m_transform g) (Suc 0, Suc 0) = 0"
    using g(2) by (simp_all add: all_less_two mat_identity_def)
  have "x ! 0 = 4" "x ! 1 = 2"
    using g(5) by (simp_all add: all_less_two u t)
  then have "x = [4, 2]"
    using g(4) by (intro nth_equalityI) (auto simp: less_Suc_eq numeral_2_eq_2)
  with g(1,3) have a: "\<exists>g. Gaussian first_axis_solver [1, 2] first_axis = Inr g \<and>
          sample g (\<lambda>_. 3) = Inr [4, 2]"
    by blast
  have z: "\<forall>i < 2. \<forall>j < 2. coeff (mat_zero 2 2) (i, j) = 0"
    by (simp add: mat_zero_def)
  from gaussian_draw [where solver = zero_solver and normal = "\<lambda>_. 3",
         OF sh0 len s0 d0] z
  have b: "\<exists>g. Gaussian zero_solver [1, 2] (mat_zero 2 2) = Inr g \<and>
          sample g (\<lambda>_. 3) = Inr [1, 2]"
    by blast
  from d1 a d0 b show ?thesis by blast
qed

end
